theory Spec2Isabelle
  imports Main "HOL-Library.AList"
begin

section \<open>Strings\<close>

text \<open>
  A Go string is a sequence of bytes; \<^typ>\<open>string\<close> is a list of 8-bit characters.
  The functions of package \<open>strings\<close> that \<open>metadata/lookup.go\<close> calls are written out
  here the way the standard library documents them.  The source passes the one-byte
  separators \<open>"/"\<close> and \<open>"."\<close> to \<open>Split\<close> and \<open>Cut\<close>, and the ASCII cutset \<open>"(*)"\<close> to
  \<open>Trim\<close>, so the separator is a single character and the cutset is matched byte by byte.
\<close>

text \<open>\<open>strings.Split(s, sep)\<close>: the substrings between the separators; one more
  element than there are separators, so never the empty slice.\<close>

fun Split :: "string \<Rightarrow> char \<Rightarrow> string list" where
  "Split [] sep = [[]]"
| "Split (c # s) sep =
     (if c = sep then [] # Split s sep
      else (case Split s sep of
              [] \<Rightarrow> [[c]]
            | p # ps \<Rightarrow> (c # p) # ps))"

text \<open>\<open>strings.Cut(s, sep)\<close>: the text before and after the first separator and
  \<open>true\<close>, or \<open>(s, "", false)\<close> when \<open>s\<close> has no separator.\<close>

fun Cut :: "string \<Rightarrow> char \<Rightarrow> string \<times> string \<times> bool" where
  "Cut [] sep = ([], [], False)"
| "Cut (c # s) sep =
     (if c = sep then ([], s, True)
      else (case Cut s sep of
              (before, after, found) \<Rightarrow>
                if found then (c # before, after, True) else (c # s, [], False)))"

text \<open>\<open>strings.Trim(s, cutset)\<close>: all leading and trailing bytes that belong to the
  cutset are removed (right end first, as the library does).\<close>

definition Trim :: "string \<Rightarrow> string \<Rightarrow> string" where
  "Trim s cutset =
     dropWhile (\<lambda>c. c \<in> set cutset) (rev (dropWhile (\<lambda>c. c \<in> set cutset) (rev s)))"

text \<open>
  \<open>strings.TrimSpace(s)\<close> removes leading and trailing white space as Unicode defines
  it.  The white-space code points are U+0009..U+000D, U+0020, U+0085, U+00A0, U+1680,
  U+2000..U+200A, U+2028, U+2029, U+202F, U+205F and U+3000; \<open>spaceRunes\<close> lists their
  UTF-8 encodings.  A byte sequence that is not the encoding of one of them (invalid
  UTF-8 included, which decodes to U+FFFD) stops the trimming.
\<close>

definition spaceRunes :: "string list" where
  "spaceRunes =
     [[CHR 0x09], [CHR 0x0A], [CHR 0x0B], [CHR 0x0C], [CHR 0x0D], [CHR 0x20],
      [CHR 0xC2, CHR 0x85], [CHR 0xC2, CHR 0xA0],
      [CHR 0xE1, CHR 0x9A, CHR 0x80],
      [CHR 0xE2, CHR 0x80, CHR 0x80], [CHR 0xE2, CHR 0x80, CHR 0x81],
      [CHR 0xE2, CHR 0x80, CHR 0x82], [CHR 0xE2, CHR 0x80, CHR 0x83],
      [CHR 0xE2, CHR 0x80, CHR 0x84], [CHR 0xE2, CHR 0x80, CHR 0x85],
      [CHR 0xE2, CHR 0x80, CHR 0x86], [CHR 0xE2, CHR 0x80, CHR 0x87],
      [CHR 0xE2, CHR 0x80, CHR 0x88], [CHR 0xE2, CHR 0x80, CHR 0x89],
      [CHR 0xE2, CHR 0x80, CHR 0x8A],
      [CHR 0xE2, CHR 0x80, CHR 0xA8], [CHR 0xE2, CHR 0x80, CHR 0xA9],
      [CHR 0xE2, CHR 0x80, CHR 0xAF], [CHR 0xE2, CHR 0x81, CHR 0x9F],
      [CHR 0xE3, CHR 0x80, CHR 0x80]]"

text \<open>The first of the given byte patterns that \<open>s\<close> starts with.\<close>

definition leading :: "string list \<Rightarrow> string \<Rightarrow> string option" where
  "leading pats s = find (\<lambda>p. p \<noteq> [] \<and> take (length p) s = p) pats"

function dropLeading :: "string list \<Rightarrow> string \<Rightarrow> string" where
  "dropLeading pats s =
     (case leading pats s of
        None \<Rightarrow> s
      | Some p \<Rightarrow> dropLeading pats (drop (length p) s))"
  by pat_completeness auto
termination
proof (relation "measure (\<lambda>(pats, s). length s)")
  show "wf (measure (\<lambda>(pats, s). length s))"
    by simp
next
  fix pats :: "string list" and s p :: string
  assume "leading pats s = Some p"
  then have "p \<noteq> []" and "take (length p) s = p"
    by (auto simp: leading_def find_Some_iff)
  then have "s \<noteq> []" and "0 < length p"
    by auto
  then show "((pats, drop (length p) s), (pats, s)) \<in> measure (\<lambda>(pats, s). length s)"
    by simp
qed

definition TrimSpace :: "string \<Rightarrow> string" where
  "TrimSpace s =
     rev (dropLeading (map rev spaceRunes) (rev (dropLeading spaceRunes s)))"

section \<open>Declaration records of the indexer\<close>

text \<open>
  The records that \<open>commentof\<close> builds for a parsed file or package (its package
  \<open>collect\<close>); the lookups only read them.  A Go map is a partial function.  The maps
  hold pointers; the indexer allocates every record it stores, so a nil pointer comes only
  from a key that is missing, and \<open>None\<close> stands for it.  \<open>Fields\<close> is listed in the
  order in which a \<open>range\<close> statement visits it (an order Go leaves open).
\<close>

record collect_Field =
  Name :: string
  Doc :: string
  Comment :: string

record collect_Func =
  Name :: string
  Doc :: string
  Params :: "string \<rightharpoonup> collect_Field"
  ParamNames :: "string list"
  Returns :: "string \<rightharpoonup> collect_Field"
  ReturnNames :: "string list"

record collect_Object =
  Name :: string
  Doc :: string
  Comment :: string
  Fields :: "collect_Field list"
  Methods :: "string \<rightharpoonup> collect_Func"

record collect_Package =
  Types :: "string \<rightharpoonup> collect_Object"
  Functions :: "string \<rightharpoonup> collect_Func"

section \<open>Function metadata\<close>

text \<open>\<open>Raw\<close> is a pointer in the source; the lookup below stores only records it found
  in the indexer's maps, so it is a record here.\<close>

record Func =
  pc :: nat
  Raw :: collect_Func
  Recv :: string

datatype panic = NilDereference | IndexOutOfRange

text \<open>
  The methods of a type \<open>T\<close> are named \<open>T_method\<close>.  The loop of \<open>Args\<close> and of
  \<open>Returns\<close>:
  \<^verbatim>\<open>for i, id := range m.Raw.ParamNames { names[i] = m.Raw.Params[id].Name }\<close>.
  Indexing the map with a missing key gives the nil pointer, and reading \<open>.Name\<close> through
  it panics.
\<close>

fun names_loop ::
  "(string \<rightharpoonup> collect_Field) \<Rightarrow> string list \<Rightarrow> nat \<Rightarrow> string list \<Rightarrow> panic + string list"
where
  "names_loop tbl [] i names = Inr names"
| "names_loop tbl (ident # idents) i names =
     (case tbl ident of
        None \<Rightarrow> Inl NilDereference
      | Some field \<Rightarrow>
          if i < length names
          then names_loop tbl idents (Suc i) (names[i := collect_Field.Name field])
          else Inl IndexOutOfRange)"

definition Func_Args :: "Func \<Rightarrow> panic + string list" where
  "Func_Args m =
     names_loop (Params (Raw m)) (ParamNames (Raw m)) 0
       (replicate (length (ParamNames (Raw m))) [])"

definition Func_Returns :: "Func \<Rightarrow> panic + string list" where
  "Func_Returns m =
     names_loop (collect_Func.Returns (Raw m)) (ReturnNames (Raw m)) 0
       (replicate (length (ReturnNames (Raw m))) [])"

definition Func_Name :: "Func \<Rightarrow> string" where
  "Func_Name m = collect_Func.Name (Raw m)"

definition Func_Doc :: "Func \<Rightarrow> string" where
  "Func_Doc m = TrimSpace (collect_Func.Doc (Raw m))"

section \<open>Struct metadata\<close>

record Struct =
  Raw :: collect_Object

definition Struct_Name :: "Struct \<Rightarrow> string" where
  "Struct_Name s = collect_Object.Name (Struct.Raw s)"

definition Struct_Doc :: "Struct \<Rightarrow> string" where
  "Struct_Doc s =
     (let doc = collect_Object.Doc (Struct.Raw s);
          doc = (if doc = [] then collect_Object.Comment (Struct.Raw s) else doc)
      in TrimSpace doc)"

text \<open>The loop body of \<open>FieldComments\<close>: one assignment \<open>comments[f.Name] = ...\<close>.\<close>

definition FieldComments_step ::
  "collect_Field \<Rightarrow> (string \<rightharpoonup> string) \<Rightarrow> (string \<rightharpoonup> string)"
where
  "FieldComments_step f comments =
     (let doc = collect_Field.Doc f;
          doc = (if doc = [] then collect_Field.Comment f else doc)
      in comments(collect_Field.Name f \<mapsto> TrimSpace doc))"

definition Struct_FieldComments :: "Struct \<Rightarrow> (string \<rightharpoonup> string)" where
  "Struct_FieldComments s = fold FieldComments_step (Fields (Struct.Raw s)) Map.empty"

section \<open>Errors\<close>

text \<open>
  The error values the lookups build.  \<open>ErrNotFound\<close> is the package variable;
  \<open>Errorf\<close> is \<open>fmt.Errorf\<close> with a format that has no \<open>%w\<close> (only a message);
  \<open>Wrapf\<close> is \<open>fmt.Errorf\<close> with a format that ends in \<open>%w\<close>: the text before the
  wrapped error, and the wrapped error; \<open>External\<close> is an error returned by the parser,
  the package loader or the indexer, with its message.
\<close>

datatype error =
    ErrNotFound
  | Errorf string
  | Wrapf string error
  | External string

text \<open>\<open>err.Error()\<close>\<close>

fun Error :: "error \<Rightarrow> string" where
  "Error ErrNotFound = ''not found''"
| "Error (Errorf msg) = msg"
| "Error (Wrapf msg err) = msg @ Error err"
| "Error (External msg) = msg"

text \<open>\<open>errors.Is(err, ErrNotFound)\<close>: the chain of wrapped errors reaches
  \<open>ErrNotFound\<close>.\<close>

fun Is_ErrNotFound :: "error \<Rightarrow> bool" where
  "Is_ErrNotFound ErrNotFound = True"
| "Is_ErrNotFound (Wrapf msg err) = Is_ErrNotFound err"
| "Is_ErrNotFound (Errorf msg) = False"
| "Is_ErrNotFound (External msg) = False"

text \<open>
  The dynamic type of an error value, which is what a type switch or \<open>errors.As\<close> can
  test.  \<open>fmt.Errorf\<close> returns a \<open>*fmt.wrapError\<close> when its format has \<open>%w\<close> and the
  plain string error of \<open>errors.New\<close> otherwise; \<open>ErrNotFound\<close> is itself built by
  \<open>fmt.Errorf\<close> without \<open>%w\<close>.
\<close>

datatype error_type = errors_errorString | fmt_wrapError | external_error

fun TypeOf :: "error \<Rightarrow> error_type" where
  "TypeOf ErrNotFound = errors_errorString"
| "TypeOf (Errorf msg) = errors_errorString"
| "TypeOf (Wrapf msg err) = fmt_wrapError"
| "TypeOf (External msg) = external_error"

section \<open>The runtime, the parser, the package loader and the indexer\<close>

text \<open>
  What the lookups call outside this package is a parameter of the model, the record
  \<open>world\<close>.  Each lookup returns its result together with the calls it made, in order.

  \<^item> \<open>FuncForPC\<close>: the accessor of the runtime's symbol table (package
    \<open>unsaferuntime\<close>, whose source is not among these files); \<open>None\<close> is the nil handle.
  \<^item> \<open>ParseFile\<close>: \<open>parser.ParseFile\<close>, which returns a nil tree with an error when the
    source cannot be read, a partial tree with an error on syntax errors, and a tree with
    no error otherwise.
  \<^item> \<open>commentof_File\<close>, \<open>commentof_Package\<close>: the indexer, given the
    include-unexported option.  \<open>commentof.File\<close> is handed whatever tree the parser
    returned, also the empty tree of a file that is no Go source, and may panic on it
    instead of returning; the panic is its outermost outcome.  \<open>commentof.Package\<close>
    is only handed the trees of packages without load errors.
  \<^item> \<open>ReadBuildInfo\<close>: \<open>debug.ReadBuildInfo\<close>; \<open>None\<close> is \<open>ok == false\<close>.
  \<^item> \<open>Load\<close>: \<open>packages.Load\<close>, given \<open>cfg.Tests\<close> and the pattern.
  \<^item> \<open>FileName\<close>: \<open>l.Fset.File(f.Pos()).Name()\<close> for a tree of a loaded package (the
    loader registers the trees it returns in the file set it was given).
\<close>

record runtime_Func =
  Name :: string
  Entry :: nat
  FileLine :: "nat \<Rightarrow> string \<times> int"

datatype 'ast parse_result =
    NoTree string
  | PartialTree 'ast string
  | Tree 'ast

record BuildInfo =
  Path :: string

record 'ast packages_Package =
  ID :: string
  Name :: string
  PkgPath :: string
  Errors :: "string list"
  Syntax :: "'ast list"

record reflect_Type =
  Name :: string
  PkgPath :: string
  String :: string

record 'ast world =
  FuncForPC :: "nat \<Rightarrow> runtime_Func option"
  ParseFile :: "string \<Rightarrow> 'ast parse_result"
  commentof_File :: "bool \<Rightarrow> 'ast \<Rightarrow> panic + string + collect_Package"
  ReadBuildInfo :: "BuildInfo option"
  Load :: "bool \<Rightarrow> string \<Rightarrow> string + 'ast packages_Package list"
  FileName :: "'ast \<Rightarrow> string"
  commentof_Package :: "bool \<Rightarrow> string \<Rightarrow> (string \<times> 'ast) list \<Rightarrow> string + collect_Package"

datatype 'ast event =
    Call_FuncForPC nat
  | Call_ParseFile string
  | Call_commentof_File 'ast bool
  | Call_ReadBuildInfo
  | Call_Load string bool
  | Call_commentof_Package string "(string \<times> 'ast) list" bool
  | Log string

text \<open>The calls \<open>evs\<close> were made before those of the rest of the run.\<close>

fun after :: "'e list \<Rightarrow> 'r \<times> 'e list \<Rightarrow> 'r \<times> 'e list" where
  "after evs (r, tr) = (r, evs @ tr)"

section \<open>The lookup\<close>

text \<open>The field \<open>accessor\<close> of the source is the \<open>FuncForPC\<close> of the world; the file
  set is a handle that the lookups only pass on.\<close>

record 'fs Lookup =
  Fset :: 'fs
  IncludeGoTestFiles :: bool
  IncludeUnexported :: bool

definition NewLookup :: "'fs \<Rightarrow> 'fs Lookup" where
  "NewLookup fset = \<lparr>Fset = fset, IncludeGoTestFiles = False, IncludeUnexported = False\<rparr>"

subsection \<open>Functions and methods\<close>

text \<open>
  Lines 103 to 117 of \<open>LookupFromFuncForPC\<close>: the symbol is split at \<open>/\<close>, the last part
  is cut at its first \<open>.\<close> into the package name and the rest, and the rest is cut at its
  first \<open>.\<close> into receiver and name.  The result is \<open>(recv, name, isMethod)\<close>.  \<open>Split\<close>
  never returns the empty list, so \<open>last\<close> is \<open>parts[len(parts)-1]\<close>.
\<close>

definition demangle :: "string \<Rightarrow> error + string \<times> string \<times> bool" where
  "demangle fullname =
     (let parts = Split fullname CHR ''/'';
          last_part = last parts
      in case Cut last_part CHR ''.'' of
           (pkgname, name, isFunc) \<Rightarrow>
             if \<not> isFunc then Inl (Errorf (''unexpected func: '' @ fullname))
             else (case Cut name CHR ''.'' of
                     (recv, name', isMethod) \<Rightarrow>
                       if isMethod then Inr (Trim recv ''(*)'', name', True)
                       else Inr ([], recv, False)))"

text \<open>Lines 120 to 136: the record of the method in the type's record, or of the
  function.\<close>

definition select_Func ::
  "collect_Package \<Rightarrow> nat \<Rightarrow> string \<Rightarrow> string \<times> string \<times> bool \<Rightarrow> error + Func"
where
  "select_Func p pc' fullname d =
     (case d of
        (recv, name, isMethod) \<Rightarrow>
          if isMethod then
            (case Types p recv of
               None \<Rightarrow>
                 Inl (Wrapf (''lookup metadata of method '' @ fullname @ '', '') ErrNotFound)
             | Some ob \<Rightarrow>
                 (case Methods ob name of
                    None \<Rightarrow>
                      Inl (Wrapf (''lookup metadata of method '' @ fullname @ '', '') ErrNotFound)
                  | Some result \<Rightarrow> Inr \<lparr>pc = pc', Raw = result, Recv = recv\<rparr>))
          else
            (case Functions p name of
               None \<Rightarrow>
                 Inl (Wrapf (''lookup metadata of function '' @ fullname @ '', '') ErrNotFound)
             | Some result \<Rightarrow> Inr \<lparr>pc = pc', Raw = result, Recv = []\<rparr>))"

text \<open>The tree the lookup goes on with, or the error it returns: \<open>if f == nil\<close>.\<close>

fun parsed :: "'ast parse_result \<Rightarrow> string + 'ast" where
  "parsed (NoTree err) = Inl err"
| "parsed (PartialTree f err) = Inr f"
| "parsed (Tree f) = Inr f"

text \<open>
  The outcome of the lookup is a panic that passes through it (\<open>Inl\<close>), or what it
  returns: an error (\<open>Inr (Inl err)\<close>) or the metadata (\<open>Inr (Inr m)\<close>).
\<close>

definition LookupFromFuncForPC ::
  "'ast world \<Rightarrow> 'fs Lookup \<Rightarrow> nat \<Rightarrow> (panic + error + Func) \<times> 'ast event list"
where
  "LookupFromFuncForPC w l pc' =
     after [Call_FuncForPC pc']
       (case FuncForPC w pc' of
          None \<Rightarrow> (Inr (Inl (Errorf ''cannot find runtime.Func'')), [])
        | Some rfunc \<Rightarrow>
            (let filename = fst (FileLine rfunc (Entry rfunc)) in
             after [Call_ParseFile filename]
               (case parsed (ParseFile w filename) of
                  Inl err \<Rightarrow> (Inr (Inl (External err)), [])
                | Inr f \<Rightarrow>
                    after [Call_commentof_File f (IncludeUnexported l)]
                      (case commentof_File w (IncludeUnexported l) f of
                         Inl thrown \<Rightarrow> (Inl thrown, [])
                       | Inr returned \<Rightarrow>
                           (case returned of
                              Inl err \<Rightarrow> (Inr (Inl (External err)), [])
                            | Inr p \<Rightarrow>
                                (case demangle (runtime_Func.Name rfunc) of
                                   Inl err \<Rightarrow> (Inr (Inl err), [])
                                 | Inr d \<Rightarrow>
                                     (Inr (select_Func p pc' (runtime_Func.Name rfunc) d), [])))))))"

subsection \<open>Struct types\<close>

text \<open>Lines 211 to 215: \<open>tree.Files\<close>, the map from file name to syntax tree, written
  as an association list.\<close>

definition tree_Files :: "'ast world \<Rightarrow> 'ast packages_Package \<Rightarrow> (string \<times> 'ast) list" where
  "tree_Files w pkg = fold (\<lambda>f files. AList.update (FileName w f) f files) (Syntax pkg) []"

text \<open>The loop over the loaded packages, lines 200 to 227.\<close>

fun scan_pkgs ::
  "'ast world \<Rightarrow> 'fs Lookup \<Rightarrow> reflect_Type \<Rightarrow> string \<Rightarrow> 'ast packages_Package list
     \<Rightarrow> (error + Struct) \<times> 'ast event list"
where
  "scan_pkgs w l rt pkgpath [] =
     (Inl (Wrapf (''lookup metadata of '' @ String rt @ '' is failed '') ErrNotFound), [])"
| "scan_pkgs w l rt pkgpath (pkg # pkgs) =
     (if Errors pkg \<noteq> [] then
        after (map (\<lambda>err. Log (''lookup package error ('' @ ID pkg @ '') '' @ err)) (Errors pkg))
          (scan_pkgs w l rt pkgpath pkgs)
      else if packages_Package.PkgPath pkg \<noteq> pkgpath then scan_pkgs w l rt pkgpath pkgs
      else
        (let files = tree_Files w pkg in
         after [Call_commentof_Package (packages_Package.Name pkg) files (IncludeUnexported l)]
           (case commentof_Package w (IncludeUnexported l) (packages_Package.Name pkg) files of
              Inl err \<Rightarrow>
                (Inl (Wrapf (''collect: dir='' @ packages_Package.PkgPath pkg @ '', name=''
                        @ reflect_Type.Name rt @ '', '') (External err)), [])
            | Inr p \<Rightarrow>
                (case Types p (reflect_Type.Name rt) of
                   None \<Rightarrow> scan_pkgs w l rt pkgpath pkgs
                 | Some result \<Rightarrow> (Inr \<lparr>Raw = result\<rparr>, [])))))"

text \<open>Lines 184 to 198: the packages are loaded for the resolved path.\<close>

definition load_pkgs ::
  "'ast world \<Rightarrow> 'fs Lookup \<Rightarrow> reflect_Type \<Rightarrow> string \<Rightarrow> (error + Struct) \<times> 'ast event list"
where
  "load_pkgs w l rt pkgpath =
     after [Call_Load pkgpath (Lookup.IncludeGoTestFiles l)]
       (case Load w (Lookup.IncludeGoTestFiles l) pkgpath of
          Inl err \<Rightarrow> (Inl (Wrapf ''packages.Load() '' (External err)), [])
        | Inr pkgs \<Rightarrow> scan_pkgs w l rt pkgpath pkgs)"

text \<open>Lines 173 to 182: the package path of the type, or for the path \<open>main\<close> the path
  of the main package in the build information of the running binary.\<close>

definition resolve_pkgpath :: "'ast world \<Rightarrow> reflect_Type \<Rightarrow> (error + string) \<times> 'ast event list" where
  "resolve_pkgpath w rt =
     (let pkgpath = reflect_Type.PkgPath rt in
      if pkgpath = ''main'' then
        after [Call_ReadBuildInfo]
          (case ReadBuildInfo w of
             None \<Rightarrow> (Inl ErrNotFound, [Log ''debug.ReadBuildInfo() is failed''])
           | Some binfo \<Rightarrow> (Inr (Path binfo), []))
      else (Inr pkgpath, []))"

definition LookupFromStructForReflectType ::
  "'ast world \<Rightarrow> 'fs Lookup \<Rightarrow> reflect_Type \<Rightarrow> (error + Struct) \<times> 'ast event list"
where
  "LookupFromStructForReflectType w l rt =
     (case resolve_pkgpath w rt of
        (Inl err, tr) \<Rightarrow> (Inl err, tr)
      | (Inr pkgpath, tr) \<Rightarrow> after tr (load_pkgs w l rt pkgpath))"

section \<open>The configuration\<close>

text \<open>
  \<open>Config.Extract\<close> of \<open>api.go\<close>.  The extractor is not part of these sources: its
  record keeps the lookup it is given (\<open>seen\<close> and \<open>packages\<close> start empty, \<open>Config\<close>
  points back to \<open>c\<close>), and its method \<open>Extract\<close> is the parameter \<open>run\<close>.
  \<open>newFileSet\<close> is the value of \<open>token.NewFileSet()\<close> and \<open>defaultSize\<close> the value of the
  package variable \<open>DocTruncationSize\<close>.
\<close>

record 'fs Extractor =
  Lookup :: "'fs Lookup option"

record 'fs Config =
  SkipComments :: bool
  FillArgNames :: bool
  FillReturnNames :: bool
  IncludeGoTestFiles :: bool
  DocTruncationSize :: int
  extractor :: "'fs Extractor option"
  lookup :: "'fs Lookup option"

text \<open>The assignments to \<open>c\<close>, in the order of the source.\<close>

definition Extract_size :: "int \<Rightarrow> 'fs Config \<Rightarrow> 'fs Config" where
  "Extract_size defaultSize c =
     (if DocTruncationSize c = 0 then c\<lparr>DocTruncationSize := defaultSize\<rparr> else c)"

definition Extract_lookup :: "'fs \<Rightarrow> 'fs Config \<Rightarrow> 'fs Config" where
  "Extract_lookup newFileSet c =
     (if lookup c = None \<and> \<not> SkipComments c then
        (let l = NewLookup newFileSet;
             l = l\<lparr>Lookup.IncludeGoTestFiles := Config.IncludeGoTestFiles c\<rparr>;
             l = l\<lparr>IncludeUnexported := True\<rparr>
         in c\<lparr>lookup := Some l\<rparr>)
      else c)"

definition Config_Extract ::
  "('fs Extractor \<Rightarrow> 'ob \<Rightarrow> 'shape) \<Rightarrow> 'fs \<Rightarrow> int \<Rightarrow> 'fs Config \<Rightarrow> 'ob \<Rightarrow> 'shape \<times> 'fs Config"
where
  "Config_Extract run newFileSet defaultSize c ob =
     (let c = Extract_size defaultSize c;
          c = Extract_lookup newFileSet c;
          e = (case extractor c of None \<Rightarrow> \<lparr>Lookup = lookup c\<rparr> | Some e \<Rightarrow> e);
          c = c\<lparr>extractor := Some e\<rparr>
      in (run e ob, c))"

section \<open>Example inputs\<close>

text \<open>
  A function \<open>Add(ctx, _, b) (sum)\<close> whose second parameter has no name; the struct
  \<open>User\<close> of the package's example test, with a field that has both comments and one
  that has none; the index of a file \<open>stack.go\<close> with the function \<open>Add\<close> and the
  methods \<open>Push\<close> and \<open>Pop\<close> of \<open>Stack\<close>; and the index of a main package that
  declares \<open>User\<close>.
\<close>

definition example_Add :: Func where
  "example_Add =
     \<lparr>pc = 100,
      Raw = \<lparr>collect_Func.Name = ''Add'', Doc = ''Add adds.'' @ [CHR 0x0A],
             Params = map_of
               [(''ctx'', \<lparr>collect_Field.Name = ''ctx'', Doc = [], Comment = []\<rparr>),
                (''#1'', \<lparr>collect_Field.Name = [], Doc = [], Comment = []\<rparr>),
                (''b'', \<lparr>collect_Field.Name = ''b'', Doc = [], Comment = []\<rparr>)],
             ParamNames = [''ctx'', ''#1'', ''b''],
             Returns = map_of [(''sum'', \<lparr>collect_Field.Name = ''sum'', Doc = [], Comment = []\<rparr>)],
             ReturnNames = [''sum'']\<rparr>,
      Recv = []\<rparr>"

definition example_User :: Struct where
  "example_User =
     \<lparr>Raw = \<lparr>collect_Object.Name = ''User'',
             Doc = ''User is the object for User.'' @ [CHR 0x0A],
             Comment = [],
             Fields =
               [\<lparr>collect_Field.Name = ''Name'', Doc = ''name of User.'' @ [CHR 0x0A], Comment = ''shadowed'' @ [CHR 0x0A]\<rparr>,
                \<lparr>collect_Field.Name = ''Age'', Doc = [], Comment = ''age of User.'' @ [CHR 0x0A]\<rparr>,
                \<lparr>collect_Field.Name = ''ID'', Doc = [], Comment = []\<rparr>],
             Methods = Map.empty\<rparr>\<rparr>"

definition example_Pop :: collect_Func where
  "example_Pop =
     \<lparr>collect_Func.Name = ''Pop'', Doc = ''Pop removes the top.'' @ [CHR 0x0A],
      Params = Map.empty,
      ParamNames = [],
      Returns = map_of [(''#0'', \<lparr>collect_Field.Name = [], Doc = [], Comment = []\<rparr>)],
      ReturnNames = [''#0'']\<rparr>"

definition example_Push :: collect_Func where
  "example_Push =
     \<lparr>collect_Func.Name = ''Push'', Doc = ''Push adds v.'' @ [CHR 0x0A],
      Params = map_of [(''v'', \<lparr>collect_Field.Name = ''v'', Doc = [], Comment = []\<rparr>)],
      ParamNames = [''v''],
      Returns = Map.empty,
      ReturnNames = []\<rparr>"

definition example_calc :: collect_Package where
  "example_calc =
     \<lparr>Types = map_of
        [(''Stack'', \<lparr>collect_Object.Name = ''Stack'', Doc = [], Comment = [], Fields = [],
                      Methods = map_of [(''Push'', example_Push), (''Pop'', example_Pop)]\<rparr>)],
      Functions = map_of [(''Add'', Func.Raw example_Add)]\<rparr>"

definition example_main :: collect_Package where
  "example_main =
     \<lparr>Types = map_of [(''User'', Struct.Raw example_User)], Functions = Map.empty\<rparr>"

text \<open>
  A world for the lookups.  The file \<open>stack.go\<close> declares the function \<open>Add\<close> (with a
  function literal in it), the method \<open>Pop\<close> with a pointer receiver and the method
  \<open>Push\<close> with a value receiver; the parser returns its tree together with an error.
  The symbol table knows these, the wrapper \<open>(*Stack).Push\<close> that the compiler generates
  for the value-receiver method (its file is \<open><autogenerated>\<close>, which is not on disk),
  and an assembly routine whose symbol has no package part: once with a source file that
  is not on disk, once with a source file that can be read (the parser returns an empty
  tree with an error, and the indexer panics on it), and once attributed to the Go file.
  Syntax trees are numbered.  The loader knows the main package \<open>example.com/m\<close>
  (returned together with a test variant that has a load error and a package of another
  path) and a package that the indexer rejects; for any other path it fails.
\<close>

definition example_symbol :: "string \<Rightarrow> nat \<Rightarrow> string \<Rightarrow> runtime_Func" where
  "example_symbol name entry file =
     \<lparr>runtime_Func.Name = name, Entry = entry, FileLine = (\<lambda>a. (file, 1))\<rparr>"

definition example_pkgs :: "nat packages_Package list" where
  "example_pkgs =
     [\<lparr>ID = ''example.com/m [example.com/m.test]'', Name = ''main'', PkgPath = ''example.com/m'',
       Errors = [''/src/m/user_test.go:3:1: expected declaration''], Syntax = [4]\<rparr>,
      \<lparr>ID = ''example.com/m.test'', Name = ''main'', PkgPath = ''example.com/m.test'',
       Errors = [], Syntax = [5]\<rparr>,
      \<lparr>ID = ''example.com/m'', Name = ''main'', PkgPath = ''example.com/m'',
       Errors = [], Syntax = [2, 3]\<rparr>]"

definition example_world :: "nat world" where
  "example_world =
     \<lparr>FuncForPC = (\<lambda>a.
        if a = 100 then Some (example_symbol ''example.com/m/calc.Add'' 100 ''/src/m/calc/stack.go'')
        else if a = 200 then Some (example_symbol ''example.com/m/calc.(*Stack).Pop'' 200 ''/src/m/calc/stack.go'')
        else if a = 201 then Some (example_symbol ''example.com/m/calc.Stack.Push'' 201 ''/src/m/calc/stack.go'')
        else if a = 202 then Some (example_symbol ''example.com/m/calc.(*Stack).Push'' 202 ''<autogenerated>'')
        else if a = 301 then Some (example_symbol ''example.com/m/calc.Add.func1'' 301 ''/src/m/calc/stack.go'')
        else if a = 400 then Some (example_symbol ''memeqbody'' 400 ''/src/m/calc/stack.go'')
        else if a = 450 then Some (example_symbol ''memeqbody'' 450 ''/usr/lib/go/src/internal/bytealg/equal_amd64.s'')
        else if a = 500 then Some (example_symbol ''memeqbody'' 500 ''/usr/local/go/src/internal/bytealg/equal_amd64.s'')
        else None),
      ParseFile = (\<lambda>filename.
        if filename = ''/src/m/calc/stack.go''
        then PartialTree 1 ''/src/m/calc/stack.go:40:1: expected declaration''
        else if filename = ''/usr/lib/go/src/internal/bytealg/equal_amd64.s''
        then PartialTree 7 ''/usr/lib/go/src/internal/bytealg/equal_amd64.s:5:1: expected package''
        else NoTree (''open '' @ filename @ '': no such file or directory'')),
      commentof_File = (\<lambda>unexported f.
        if f = 1 then Inr (Inr example_calc)
        else if f = 7 then Inl NilDereference
        else Inr (Inl ''unsupported'')),
      ReadBuildInfo = Some \<lparr>Path = ''example.com/m''\<rparr>,
      Load = (\<lambda>tests pattern.
        if pattern = ''example.com/m'' then Inr example_pkgs
        else if pattern = ''example.com/m/gen''
        then Inr [\<lparr>ID = ''example.com/m/gen'', Name = ''gen'', PkgPath = ''example.com/m/gen'',
                   Errors = [], Syntax = [6]\<rparr>]
        else Inl ''go: executable file not found''),
      FileName = (\<lambda>f. if f = 2 then ''/src/m/main.go'' else if f = 3 then ''/src/m/user.go''
                      else ''/src/m/gen/gen.go''),
      commentof_Package = (\<lambda>unexported name files.
        if name = ''main'' then Inr example_main else Inl ''unsupported'')\<rparr>"

definition example_Lookup :: "unit Lookup" where
  "example_Lookup = \<lparr>Fset = (), IncludeGoTestFiles = False, IncludeUnexported = True\<rparr>"

definition example_Type :: "string \<Rightarrow> string \<Rightarrow> reflect_Type" where
  "example_Type pkgpath name =
     \<lparr>reflect_Type.Name = name, PkgPath = pkgpath, String = pkgpath @ ''.'' @ name\<rparr>"

definition example_Config :: "unit Config" where
  "example_Config =
     \<lparr>SkipComments = False, FillArgNames = False, FillReturnNames = False,
      IncludeGoTestFiles = True, DocTruncationSize = 0, extractor = None, lookup = None\<rparr>"

section \<open>Facts about the example inputs\<close>

lemma example_symbols:
  "FuncForPC example_world 200 = Some (example_symbol ''example.com/m/calc.(*Stack).Pop'' 200 ''/src/m/calc/stack.go'')"
  "FuncForPC example_world 201 = Some (example_symbol ''example.com/m/calc.Stack.Push'' 201 ''/src/m/calc/stack.go'')"
  "FuncForPC example_world 202 = Some (example_symbol ''example.com/m/calc.(*Stack).Push'' 202 ''<autogenerated>'')"
  "FuncForPC example_world 301 = Some (example_symbol ''example.com/m/calc.Add.func1'' 301 ''/src/m/calc/stack.go'')"
  "FuncForPC example_world 400 = Some (example_symbol ''memeqbody'' 400 ''/src/m/calc/stack.go'')"
  "FuncForPC example_world 500 = Some (example_symbol ''memeqbody'' 500 ''/usr/local/go/src/internal/bytealg/equal_amd64.s'')"
  "FuncForPC example_world 450 = Some (example_symbol ''memeqbody'' 450 ''/usr/lib/go/src/internal/bytealg/equal_amd64.s'')"
  "FuncForPC example_world 999 = None"
  by (simp_all add: example_world_def)

lemma example_files:
  "fst (FileLine (example_symbol name entry file) (Entry (example_symbol name entry file))) = file"
  "runtime_Func.Name (example_symbol name entry file) = name"
  by (simp_all add: example_symbol_def)

lemma example_parse:
  "ParseFile example_world ''/src/m/calc/stack.go'' =
     PartialTree 1 ''/src/m/calc/stack.go:40:1: expected declaration''"
  "ParseFile example_world ''/usr/local/go/src/internal/bytealg/equal_amd64.s'' =
     NoTree ''open /usr/local/go/src/internal/bytealg/equal_amd64.s: no such file or directory''"
  "commentof_File example_world True (Suc 0) = Inr (Inr example_calc)"
  "IncludeUnexported example_Lookup = True"
  "ParseFile example_world ''<autogenerated>'' =
     NoTree ''open <autogenerated>: no such file or directory''"
  "ParseFile example_world ''/usr/lib/go/src/internal/bytealg/equal_amd64.s'' =
     PartialTree 7 ''/usr/lib/go/src/internal/bytealg/equal_amd64.s:5:1: expected package''"
  "commentof_File example_world True 7 = Inl NilDereference"
  by (simp_all add: example_world_def example_Lookup_def)

lemma example_parsed:
  "parsed (ParseFile example_world ''/src/m/calc/stack.go'') = Inr 1"
  "parsed (ParseFile example_world ''<autogenerated>'') = Inl ''open <autogenerated>: no such file or directory''"
  "parsed (ParseFile example_world ''/usr/local/go/src/internal/bytealg/equal_amd64.s'') =
     Inl ''open /usr/local/go/src/internal/bytealg/equal_amd64.s: no such file or directory''"
  "parsed (ParseFile example_world ''/usr/lib/go/src/internal/bytealg/equal_amd64.s'') = Inr 7"
  by (simp_all add: example_parse)

lemma example_index:
  "Types example_calc ''Stack'' =
     Some \<lparr>collect_Object.Name = ''Stack'', Doc = [], Comment = [], Fields = [],
           Methods = map_of [(''Push'', example_Push), (''Pop'', example_Pop)]\<rparr>"
  "Types example_calc ''Add'' = None"
  by (simp_all add: example_calc_def)

lemma example_Type_simps:
  "reflect_Type.PkgPath (example_Type pkgpath name) = pkgpath"
  "reflect_Type.Name (example_Type pkgpath name) = name"
  "String (example_Type pkgpath name) = pkgpath @ ''.'' @ name"
  by (simp_all add: example_Type_def)

lemma example_build:
  "ReadBuildInfo example_world = Some \<lparr>Path = ''example.com/m''\<rparr>"
  "ReadBuildInfo (example_world\<lparr>ReadBuildInfo := None\<rparr>) = None"
  by (simp_all add: example_world_def)

lemma example_resolve:
  "fst (resolve_pkgpath example_world (example_Type ''main'' name)) = Inr ''example.com/m''"
  "fst (resolve_pkgpath example_world (example_Type ''example.com/m/calc'' name)) = Inr ''example.com/m/calc''"
  "fst (resolve_pkgpath example_world (example_Type ''example.com/m/gen'' name)) = Inr ''example.com/m/gen''"
  by (simp_all add: resolve_pkgpath_def example_Type_simps example_build)

lemma example_Load:
  "Load example_world (Lookup.IncludeGoTestFiles example_Lookup) ''example.com/m'' = Inr example_pkgs"
  "Load example_world (Lookup.IncludeGoTestFiles example_Lookup) ''example.com/m/calc'' =
     Inl ''go: executable file not found''"
  "Load example_world (Lookup.IncludeGoTestFiles example_Lookup) ''example.com/m/gen'' =
     Inr [\<lparr>ID = ''example.com/m/gen'', Name = ''gen'', PkgPath = ''example.com/m/gen'',
           Errors = [], Syntax = [6]\<rparr>]"
  by (simp_all add: example_world_def)

lemma example_eligible:
  "filter (\<lambda>pkg. Errors pkg = [] \<and> packages_Package.PkgPath pkg = ''example.com/m'') example_pkgs =
     [\<lparr>ID = ''example.com/m'', Name = ''main'', PkgPath = ''example.com/m'',
       Errors = [], Syntax = [2, 3]\<rparr>]"
  by (simp add: example_pkgs_def)

lemma example_indexed:
  "commentof_Package example_world unexported ''main'' files = Inr example_main"
  "commentof_Package example_world unexported ''gen'' files = Inl ''unsupported''"
  "Types example_main ''User'' = Some (Struct.Raw example_User)"
  "Types example_main ''Missing'' = None"
  by (simp_all add: example_world_def example_main_def)

section \<open>Parameter and result names\<close>

lemma names_loop_all:
  assumes "\<forall>ident \<in> set idents. tbl ident \<noteq> None"
    and "i + length idents = length names"
  shows "names_loop tbl idents i names =
         Inr (take i names @ map (\<lambda>ident. collect_Field.Name (the (tbl ident))) idents)"
  using assms
proof (induction idents arbitrary: i names)
  case Nil
  then show ?case by simp
next
  case (Cons ident idents)
  from Cons.prems obtain field where f: "tbl ident = Some field"
    by auto
  from Cons.prems have i: "i < length names"
    by simp
  let ?names = "names[i := collect_Field.Name field]"
  have "names_loop tbl idents (Suc i) ?names =
        Inr (take (Suc i) ?names @ map (\<lambda>ident. collect_Field.Name (the (tbl ident))) idents)"
    using Cons.prems by (intro Cons.IH) auto
  moreover have "take (Suc i) ?names = take i names @ [collect_Field.Name field]"
    using i by (simp add: take_Suc_conv_app_nth)
  ultimately show ?case
    using f i by simp
qed

lemma names_loop_missing:
  assumes "ident \<in> set idents" and "tbl ident = None"
    and "i + length idents = length names"
  shows "names_loop tbl idents i names = Inl NilDereference"
  using assms
proof (induction idents arbitrary: i names)
  case Nil
  then show ?case by simp
next
  case (Cons a idents)
  show ?case
  proof (cases "tbl a")
    case None
    then show ?thesis by simp
  next
    case (Some field)
    with Cons.prems have "ident \<in> set idents" by auto
    then have "names_loop tbl idents (Suc i) (names[i := collect_Field.Name field]) = Inl NilDereference"
      using Cons.prems by (intro Cons.IH) auto
    then show ?thesis using Some Cons.prems by simp
  qed
qed

text \<open>
  \<^bold>\<open>C1.\<close>  For a function record whose listed parameter identifiers all have an entry
  in \<open>Params\<close> (as the indexer builds it for a declaration), \<open>Args()\<close> returns, without
  panicking, a list as long as the list of declared parameters, and its entry at every
  position is the name recorded for the parameter declared at that position: the empty
  string where the parameter has no name, never a missing position.  \<open>Returns()\<close> does
  the same for the declared results.
\<close>

theorem Func_Args_Returns_names:
  assumes "\<forall>ident \<in> set (ParamNames (Func.Raw m)). Params (Func.Raw m) ident \<noteq> None"
    and "\<forall>ident \<in> set (ReturnNames (Func.Raw m)). collect_Func.Returns (Func.Raw m) ident \<noteq> None"
  shows "(\<exists>names. Func_Args m = Inr names
            \<and> length names = length (ParamNames (Func.Raw m))
            \<and> (\<forall>i < length (ParamNames (Func.Raw m)).
                 \<exists>field. Params (Func.Raw m) (ParamNames (Func.Raw m) ! i) = Some field
                   \<and> names ! i = collect_Field.Name field))
       \<and> (\<exists>names. Func_Returns m = Inr names
            \<and> length names = length (ReturnNames (Func.Raw m))
            \<and> (\<forall>i < length (ReturnNames (Func.Raw m)).
                 \<exists>field. collect_Func.Returns (Func.Raw m) (ReturnNames (Func.Raw m) ! i) = Some field
                   \<and> names ! i = collect_Field.Name field))"
proof -
  have *: "\<exists>names. names_loop tbl idents 0 (replicate (length idents) []) = Inr names
            \<and> length names = length idents
            \<and> (\<forall>i < length idents.
                 \<exists>field. tbl (idents ! i) = Some field \<and> names ! i = collect_Field.Name field)"
    if "\<forall>ident \<in> set idents. tbl ident \<noteq> None"
    for tbl :: "string \<rightharpoonup> collect_Field" and idents
  proof -
    have "names_loop tbl idents 0 (replicate (length idents) []) =
          Inr (map (\<lambda>ident. collect_Field.Name (the (tbl ident))) idents)"
      using names_loop_all [OF that, of 0 "replicate (length idents) []"] by simp
    moreover have "\<exists>field. tbl (idents ! i) = Some field
        \<and> map (\<lambda>ident. collect_Field.Name (the (tbl ident))) idents ! i = collect_Field.Name field"
      if "i < length idents" for i
      using that \<open>\<forall>ident \<in> set idents. tbl ident \<noteq> None\<close> by fastforce
    ultimately show ?thesis by simp
  qed
  show ?thesis
    unfolding Func_Args_def Func_Returns_def using assms by (intro conjI *)
qed

theorem Func_Args_Returns_names_witness:
  "(\<exists>names. Func_Args example_Add = Inr names \<and> length names = 3
      \<and> names ! 0 = ''ctx'' \<and> names ! 1 = [] \<and> names ! 2 = ''b'')
   \<and> (\<exists>names. Func_Returns example_Add = Inr names \<and> length names = 1 \<and> names ! 0 = ''sum'')"
proof -
  have p: "\<forall>ident \<in> set (ParamNames (Func.Raw example_Add)).
             Params (Func.Raw example_Add) ident \<noteq> None"
    by (simp add: example_Add_def)
  have r: "\<forall>ident \<in> set (ReturnNames (Func.Raw example_Add)).
             collect_Func.Returns (Func.Raw example_Add) ident \<noteq> None"
    by (simp add: example_Add_def)
  from Func_Args_Returns_names [OF p r] obtain ns rs
    where ns: "Func_Args example_Add = Inr ns"
        "length ns = length (ParamNames (Func.Raw example_Add))"
      and ns_nth: "\<And>i. i < length (ParamNames (Func.Raw example_Add)) \<Longrightarrow>
        \<exists>field. Params (Func.Raw example_Add) (ParamNames (Func.Raw example_Add) ! i) = Some field
          \<and> ns ! i = collect_Field.Name field"
      and rs: "Func_Returns example_Add = Inr rs"
        "length rs = length (ReturnNames (Func.Raw example_Add))"
      and rs_nth: "\<And>i. i < length (ReturnNames (Func.Raw example_Add)) \<Longrightarrow>
        \<exists>field. collect_Func.Returns (Func.Raw example_Add) (ReturnNames (Func.Raw example_Add) ! i) = Some field
          \<and> rs ! i = collect_Field.Name field"
    by blast
  have "ns ! 0 = ''ctx''" and "ns ! 1 = []" and "ns ! 2 = ''b''"
    using ns_nth [of 0] ns_nth [of 1] ns_nth [of 2] by (auto simp: example_Add_def)
  moreover have "rs ! 0 = ''sum''"
    using rs_nth [of 0] by (auto simp: example_Add_def)
  moreover have "length ns = 3" and "length rs = 1"
    using ns(2) rs(2) by (simp_all add: example_Add_def)
  ultimately show ?thesis
    using ns(1) rs(1) by simp
qed

section \<open>Comments of a struct and its fields\<close>

lemma leading_Nil: "leading pats [] = None"
  by (induction pats) (auto simp: leading_def)

lemma TrimSpace_Nil: "TrimSpace [] = []"
  by (simp add: TrimSpace_def leading_Nil)

lemma FieldComments_step_other:
  "collect_Field.Name f \<noteq> name \<Longrightarrow> FieldComments_step f comments name = comments name"
  by (simp add: FieldComments_step_def Let_def)

lemma FieldComments_step_same:
  "FieldComments_step f comments (collect_Field.Name f) =
     Some (TrimSpace (if collect_Field.Doc f = [] then collect_Field.Comment f else collect_Field.Doc f))"
  by (simp add: FieldComments_step_def Let_def)

lemma fold_FieldComments_entry:
  "fold FieldComments_step fs comments name = Some v \<Longrightarrow>
     comments name = Some v \<or>
     (\<exists>f \<in> set fs. collect_Field.Name f = name \<and>
        v = TrimSpace (if collect_Field.Doc f = [] then collect_Field.Comment f else collect_Field.Doc f))"
proof (induction fs arbitrary: comments)
  case Nil
  then show ?case by simp
next
  case (Cons f fs)
  from Cons.prems have "fold FieldComments_step fs (FieldComments_step f comments) name = Some v"
    by simp
  from Cons.IH [OF this] show ?case
  proof
    assume *: "FieldComments_step f comments name = Some v"
    show ?thesis
    proof (cases "collect_Field.Name f = name")
      case True
      with * show ?thesis using FieldComments_step_same [of f comments] by auto
    next
      case False
      with * show ?thesis by (simp add: FieldComments_step_other)
    qed
  qed auto
qed

lemma fold_FieldComments_absent:
  "name \<notin> collect_Field.Name ` set fs \<Longrightarrow> fold FieldComments_step fs comments name = comments name"
  by (induction fs arbitrary: comments) (auto simp: FieldComments_step_other)

lemma fold_FieldComments_present:
  "name \<in> collect_Field.Name ` set fs \<Longrightarrow> fold FieldComments_step fs comments name \<noteq> None"
proof (induction fs arbitrary: comments)
  case Nil
  then show ?case by simp
next
  case (Cons g fs)
  show ?case
  proof (cases "name \<in> collect_Field.Name ` set fs")
    case True
    then show ?thesis using Cons.IH by simp
  next
    case False
    with Cons.prems have "name = collect_Field.Name g" by simp
    with False show ?thesis
      by (simp add: fold_FieldComments_absent FieldComments_step_same)
  qed
qed

lemma fold_FieldComments_distinct:
  "distinct (map collect_Field.Name fs) \<Longrightarrow> f \<in> set fs \<Longrightarrow>
     fold FieldComments_step fs comments (collect_Field.Name f) =
       Some (TrimSpace (if collect_Field.Doc f = [] then collect_Field.Comment f else collect_Field.Doc f))"
proof (induction fs arbitrary: comments)
  case Nil
  then show ?case by simp
next
  case (Cons g fs)
  show ?case
  proof (cases "f \<in> set fs")
    case True
    then show ?thesis using Cons by simp
  next
    case False
    with Cons.prems have "g = f" and "collect_Field.Name f \<notin> collect_Field.Name ` set fs"
      by auto
    then show ?thesis
      by (simp add: fold_FieldComments_absent FieldComments_step_same)
  qed
qed


text \<open>
  \<^bold>\<open>C2.\<close>  Comment selection.  \<open>Struct.Doc()\<close>: when the doc comment of the declaration
  is present (not empty) the result is that comment, trimmed, whatever the trailing
  comment is; when there is no doc comment and there is a trailing comment, the result is
  the trailing comment, trimmed; when there is neither, the result is the empty string.
  \<open>Struct.FieldComments()\<close>: every entry is the comment of a field of that name chosen
  by the same three rules; every field has an entry under its name; and when the field
  names are distinct, the entry of every field is its own comment chosen by these rules.
\<close>

theorem Struct_comment_selection:
  "(collect_Object.Doc (Struct.Raw s) \<noteq> [] \<longrightarrow>
      Struct_Doc s = TrimSpace (collect_Object.Doc (Struct.Raw s)))
   \<and> (collect_Object.Doc (Struct.Raw s) = [] \<and> collect_Object.Comment (Struct.Raw s) \<noteq> [] \<longrightarrow>
      Struct_Doc s = TrimSpace (collect_Object.Comment (Struct.Raw s)))
   \<and> (collect_Object.Doc (Struct.Raw s) = [] \<and> collect_Object.Comment (Struct.Raw s) = [] \<longrightarrow>
      Struct_Doc s = [])
   \<and> (\<forall>name v. Struct_FieldComments s name = Some v \<longrightarrow>
        (\<exists>f \<in> set (Fields (Struct.Raw s)). collect_Field.Name f = name
           \<and> (collect_Field.Doc f \<noteq> [] \<longrightarrow> v = TrimSpace (collect_Field.Doc f))
           \<and> (collect_Field.Doc f = [] \<and> collect_Field.Comment f \<noteq> [] \<longrightarrow>
                v = TrimSpace (collect_Field.Comment f))
           \<and> (collect_Field.Doc f = [] \<and> collect_Field.Comment f = [] \<longrightarrow> v = [])))
   \<and> (\<forall>f \<in> set (Fields (Struct.Raw s)). Struct_FieldComments s (collect_Field.Name f) \<noteq> None)
   \<and> (distinct (map collect_Field.Name (Fields (Struct.Raw s))) \<longrightarrow>
        (\<forall>f \<in> set (Fields (Struct.Raw s)).
           Struct_FieldComments s (collect_Field.Name f) =
             Some (TrimSpace (if collect_Field.Doc f = [] then collect_Field.Comment f
                              else collect_Field.Doc f))))"
proof (intro conjI allI impI ballI)
  fix name v
  assume "Struct_FieldComments s name = Some v"
  then obtain f where f: "f \<in> set (Fields (Struct.Raw s))" "collect_Field.Name f = name"
    and v: "v = TrimSpace (if collect_Field.Doc f = [] then collect_Field.Comment f else collect_Field.Doc f)"
    using fold_FieldComments_entry [of "Fields (Struct.Raw s)" Map.empty name v]
    by (auto simp: Struct_FieldComments_def)
  from v have "collect_Field.Doc f \<noteq> [] \<longrightarrow> v = TrimSpace (collect_Field.Doc f)"
    and "collect_Field.Doc f = [] \<and> collect_Field.Comment f \<noteq> [] \<longrightarrow> v = TrimSpace (collect_Field.Comment f)"
    and "collect_Field.Doc f = [] \<and> collect_Field.Comment f = [] \<longrightarrow> v = []"
    by (simp_all add: TrimSpace_Nil)
  with f show "\<exists>f \<in> set (Fields (Struct.Raw s)). collect_Field.Name f = name
           \<and> (collect_Field.Doc f \<noteq> [] \<longrightarrow> v = TrimSpace (collect_Field.Doc f))
           \<and> (collect_Field.Doc f = [] \<and> collect_Field.Comment f \<noteq> [] \<longrightarrow>
                v = TrimSpace (collect_Field.Comment f))
           \<and> (collect_Field.Doc f = [] \<and> collect_Field.Comment f = [] \<longrightarrow> v = [])"
    by blast
next
  fix f
  assume "f \<in> set (Fields (Struct.Raw s))"
  then show "Struct_FieldComments s (collect_Field.Name f) \<noteq> None"
    by (simp add: Struct_FieldComments_def fold_FieldComments_present)
next
  fix f
  assume "distinct (map collect_Field.Name (Fields (Struct.Raw s)))" and "f \<in> set (Fields (Struct.Raw s))"
  then show "Struct_FieldComments s (collect_Field.Name f) =
             Some (TrimSpace (if collect_Field.Doc f = [] then collect_Field.Comment f
                              else collect_Field.Doc f))"
    by (simp add: Struct_FieldComments_def fold_FieldComments_distinct)
qed (simp_all add: Struct_Doc_def Let_def TrimSpace_Nil)

lemma example_User_fields:
  "TrimSpace (''User is the object for User.'' @ [CHR 0x0A]) = ''User is the object for User.''"
  "TrimSpace (''name of User.'' @ [CHR 0x0A]) = ''name of User.''"
  "TrimSpace (''age of User.'' @ [CHR 0x0A]) = ''age of User.''"
  by code_simp+

theorem Struct_comment_selection_witness:
  "Struct_Doc example_User = ''User is the object for User.''
   \<and> Struct_FieldComments example_User ''Name'' = Some ''name of User.''
   \<and> Struct_FieldComments example_User ''Age'' = Some ''age of User.''
   \<and> Struct_FieldComments example_User ''ID'' = Some []"
proof -
  note sel = Struct_comment_selection [of example_User]
  have fields: "Fields (Struct.Raw example_User) =
     [\<lparr>collect_Field.Name = ''Name'', Doc = ''name of User.'' @ [CHR 0x0A], Comment = ''shadowed'' @ [CHR 0x0A]\<rparr>,
      \<lparr>collect_Field.Name = ''Age'', Doc = [], Comment = ''age of User.'' @ [CHR 0x0A]\<rparr>,
      \<lparr>collect_Field.Name = ''ID'', Doc = [], Comment = []\<rparr>]"
    by (simp add: example_User_def)
  have "collect_Object.Doc (Struct.Raw example_User) \<noteq> []"
    by (simp add: example_User_def)
  with sel have "Struct_Doc example_User = TrimSpace (collect_Object.Doc (Struct.Raw example_User))"
    by blast
  then have doc: "Struct_Doc example_User = ''User is the object for User.''"
    using example_User_fields(1) by (simp add: example_User_def)
  have "distinct (map collect_Field.Name (Fields (Struct.Raw example_User)))"
    by (simp add: fields)
  with sel have all: "\<forall>f \<in> set (Fields (Struct.Raw example_User)).
           Struct_FieldComments example_User (collect_Field.Name f) =
             Some (TrimSpace (if collect_Field.Doc f = [] then collect_Field.Comment f
                              else collect_Field.Doc f))"
    by blast
  show ?thesis
    using doc all example_User_fields by (simp add: fields TrimSpace_Nil)
qed

section \<open>Splitting, cutting and trimming\<close>

lemma Split_not_Nil: "Split s sep \<noteq> []"
  by (induction s) (auto split: list.splits)

lemma Split_no_sep: "sep \<notin> set s \<Longrightarrow> Split s sep = [s]"
  by (induction s) auto

lemma Split_append: "Split (a @ sep # b) sep = Split a sep @ Split b sep"
proof (induction a)
  case Nil
  show ?case by simp
next
  case (Cons x a)
  then show ?case
    using Split_not_Nil [of a sep] by (cases "Split a sep") auto
qed

lemma last_Split:
  assumes "sep \<notin> set seg" and "dir = [] \<or> last dir = sep"
  shows "last (Split (dir @ seg) sep) = seg"
proof (cases "dir = []")
  case True
  with assms show ?thesis by (simp add: Split_no_sep)
next
  case False
  with assms obtain d where "dir = d @ [sep]"
    by (metis append_butlast_last_id)
  then have "Split (dir @ seg) sep = Split d sep @ Split seg sep"
    using Split_append [of d sep seg] by simp
  with assms show ?thesis by (simp add: Split_no_sep)
qed

lemma Cut_no_sep: "sep \<notin> set s \<Longrightarrow> Cut s sep = (s, [], False)"
  by (induction s) auto

lemma Cut_sep: "sep \<notin> set a \<Longrightarrow> Cut (a @ sep # b) sep = (a, b, True)"
  by (induction a) auto

lemma Trim_markers:
  assumes "set a \<subseteq> set cutset" and "set b \<subseteq> set cutset"
    and "t = [] \<or> hd t \<notin> set cutset \<and> last t \<notin> set cutset"
  shows "Trim (a @ t @ b) cutset = t"
proof (cases "t = []")
  case True
  show ?thesis
    unfolding Trim_def True using assms(1,2) by (auto dest!: set_dropWhileD)
next
  case False
  with assms(3) have h: "hd t \<notin> set cutset" and l: "last t \<notin> set cutset" by auto
  have "dropWhile (\<lambda>c. c \<in> set cutset) (rev b @ (rev t @ rev a)) =
        dropWhile (\<lambda>c. c \<in> set cutset) (rev t @ rev a)"
    using assms(2) by (intro dropWhile_append2) auto
  also have "\<dots> = rev t @ rev a"
    using False l by (cases "rev t") (auto simp: last_rev hd_rev)
  finally have "rev (dropWhile (\<lambda>c. c \<in> set cutset) (rev (a @ t @ b))) = a @ t"
    by simp
  moreover have "dropWhile (\<lambda>c. c \<in> set cutset) (a @ t) = dropWhile (\<lambda>c. c \<in> set cutset) t"
    using assms(1) by (intro dropWhile_append2) auto
  moreover have "dropWhile (\<lambda>c. c \<in> set cutset) t = t"
    using False h by (cases t) auto
  ultimately show ?thesis by (simp add: Trim_def)
qed

lemma demangle_no_dot:
  assumes "CHR ''/'' \<notin> set seg" and "dir = [] \<or> last dir = CHR ''/''"
    and "CHR ''.'' \<notin> set seg"
  shows "demangle (dir @ seg) = Inl (Errorf (''unexpected func: '' @ dir @ seg))"
  using assms by (simp add: demangle_def last_Split Cut_no_sep)

lemma demangle_function:
  assumes "CHR ''/'' \<notin> set (pkg @ name)" and "dir = [] \<or> last dir = CHR ''/''"
    and "CHR ''.'' \<notin> set (pkg @ name)"
  shows "demangle (dir @ pkg @ ''.'' @ name) = Inr ([], name, False)"
proof -
  have "last (Split (dir @ (pkg @ ''.'' @ name)) CHR ''/'') = pkg @ ''.'' @ name"
    using assms by (intro last_Split) auto
  moreover have "Cut (pkg @ ''.'' @ name) CHR ''.'' = (pkg, name, True)"
    using assms Cut_sep [of "CHR ''.''" pkg name] by simp
  moreover have "Cut name CHR ''.'' = (name, [], False)"
    using assms by (simp add: Cut_no_sep)
  ultimately show ?thesis by (simp add: demangle_def)
qed

lemma demangle_method:
  assumes "CHR ''/'' \<notin> set (pkg @ recv @ name)" and "dir = [] \<or> last dir = CHR ''/''"
    and "CHR ''.'' \<notin> set (pkg @ recv)"
  shows "demangle (dir @ pkg @ ''.'' @ recv @ ''.'' @ name) = Inr (Trim recv ''(*)'', name, True)"
proof -
  have "last (Split (dir @ (pkg @ ''.'' @ recv @ ''.'' @ name)) CHR ''/'') = pkg @ ''.'' @ recv @ ''.'' @ name"
    using assms by (intro last_Split) auto
  moreover have "Cut (pkg @ ''.'' @ recv @ ''.'' @ name) CHR ''.'' = (pkg, recv @ ''.'' @ name, True)"
    using assms Cut_sep [of "CHR ''.''" pkg "recv @ ''.'' @ name"] by simp
  moreover have "Cut (recv @ ''.'' @ name) CHR ''.'' = (recv, name, True)"
    using assms Cut_sep [of "CHR ''.''" recv name] by simp
  ultimately show ?thesis by (simp add: demangle_def)
qed

section \<open>Results and calls of the function lookup\<close>

lemma fst_after [simp]: "fst (after evs x) = fst x"
  by (cases x) simp

lemma snd_after [simp]: "snd (after evs x) = evs @ snd x"
  by (cases x) simp

lemma demangle_error:
  "demangle name = Inl err \<Longrightarrow> err = Errorf (''unexpected func: '' @ name)"
  by (auto simp: demangle_def Let_def split: prod.splits if_splits)

lemma LookupFromFuncForPC_found:
  assumes "FuncForPC w pc' = Some rfunc"
  shows "LookupFromFuncForPC w l pc' =
     after [Call_FuncForPC pc', Call_ParseFile (fst (FileLine rfunc (Entry rfunc)))]
       (case parsed (ParseFile w (fst (FileLine rfunc (Entry rfunc)))) of
          Inl err \<Rightarrow> (Inr (Inl (External err)), [])
        | Inr f \<Rightarrow>
            after [Call_commentof_File f (IncludeUnexported l)]
              (case commentof_File w (IncludeUnexported l) f of
                 Inl thrown \<Rightarrow> (Inl thrown, [])
               | Inr returned \<Rightarrow>
                   (case returned of
                      Inl err \<Rightarrow> (Inr (Inl (External err)), [])
                    | Inr p \<Rightarrow>
                        (case demangle (runtime_Func.Name rfunc) of
                           Inl err \<Rightarrow> (Inr (Inl err), [])
                         | Inr d \<Rightarrow> (Inr (select_Func p pc' (runtime_Func.Name rfunc) d), [])))))"
  using assms
  by (simp add: LookupFromFuncForPC_def Let_def split: sum.split)

lemma LookupFromFuncForPC_unreadable:
  assumes "FuncForPC w pc' = Some rfunc"
    and "parsed (ParseFile w (fst (FileLine rfunc (Entry rfunc)))) = Inl err"
  shows "LookupFromFuncForPC w l pc' =
     (Inr (Inl (External err)),
      [Call_FuncForPC pc', Call_ParseFile (fst (FileLine rfunc (Entry rfunc)))])"
  using assms(2) by (simp add: LookupFromFuncForPC_found [OF assms(1)])

lemma LookupFromFuncForPC_calls_indexer:
  assumes "FuncForPC w pc' = Some rfunc"
    and "parsed (ParseFile w (fst (FileLine rfunc (Entry rfunc)))) = Inr f"
  shows "Call_commentof_File f (IncludeUnexported l) \<in> set (snd (LookupFromFuncForPC w l pc'))"
  using assms(2) by (simp add: LookupFromFuncForPC_found [OF assms(1)])

lemma LookupFromFuncForPC_thrown:
  assumes "FuncForPC w pc' = Some rfunc"
    and "parsed (ParseFile w (fst (FileLine rfunc (Entry rfunc)))) = Inr f"
    and "commentof_File w (IncludeUnexported l) f = Inl thrown"
  shows "fst (LookupFromFuncForPC w l pc') = Inl thrown"
  using assms(2,3) by (simp add: LookupFromFuncForPC_found [OF assms(1)])

lemma LookupFromFuncForPC_index_error:
  assumes "FuncForPC w pc' = Some rfunc"
    and "parsed (ParseFile w (fst (FileLine rfunc (Entry rfunc)))) = Inr f"
    and "commentof_File w (IncludeUnexported l) f = Inr (Inl err)"
  shows "fst (LookupFromFuncForPC w l pc') = Inr (Inl (External err))"
  using assms(2,3) by (simp add: LookupFromFuncForPC_found [OF assms(1)])

lemma LookupFromFuncForPC_indexed:
  assumes "FuncForPC w pc' = Some rfunc"
    and "parsed (ParseFile w (fst (FileLine rfunc (Entry rfunc)))) = Inr f"
    and "commentof_File w (IncludeUnexported l) f = Inr (Inr p)"
  shows "fst (LookupFromFuncForPC w l pc') =
     (case demangle (runtime_Func.Name rfunc) of
        Inl err \<Rightarrow> Inr (Inl err)
      | Inr d \<Rightarrow> Inr (select_Func p pc' (runtime_Func.Name rfunc) d))"
  using assms(2,3) by (simp add: LookupFromFuncForPC_found [OF assms(1)] split: sum.split)

lemma select_Func_method:
  "select_Func p a fullname (recv, name, True) = Inr f \<longleftrightarrow>
     (\<exists>ob result. Types p recv = Some ob \<and> Methods ob name = Some result
        \<and> f = \<lparr>pc = a, Raw = result, Recv = recv\<rparr>)"
  by (cases "Types p recv"; cases "Methods (the (Types p recv)) name")
     (auto simp: select_Func_def)

lemma select_Func_method_case:
  "select_Func p a fullname (recv, name, True) =
     (case Types p recv of
        None \<Rightarrow> Inl (Wrapf (''lookup metadata of method '' @ fullname @ '', '') ErrNotFound)
      | Some ob \<Rightarrow>
          (case Methods ob name of
             None \<Rightarrow> Inl (Wrapf (''lookup metadata of method '' @ fullname @ '', '') ErrNotFound)
           | Some result \<Rightarrow> Inr \<lparr>pc = a, Raw = result, Recv = recv\<rparr>))"
  by (simp add: select_Func_def)

lemma example_lookup:
  assumes "FuncForPC example_world a = Some (example_symbol name a ''/src/m/calc/stack.go'')"
  shows "fst (LookupFromFuncForPC example_world example_Lookup a) =
     (case demangle name of
        Inl err \<Rightarrow> Inr (Inl err)
      | Inr d \<Rightarrow> Inr (select_Func example_calc a name d))"
  using LookupFromFuncForPC_indexed [OF assms, of 1 example_Lookup example_calc]
  by (simp add: example_files example_parse example_parsed cong: sum.case_cong)

lemma example_unreadable:
  assumes "FuncForPC example_world a = Some (example_symbol name a file)"
    and "parsed (ParseFile example_world file) = Inl err"
  shows "LookupFromFuncForPC example_world example_Lookup a =
     (Inr (Inl (External err)), [Call_FuncForPC a, Call_ParseFile file])"
  using LookupFromFuncForPC_unreadable [OF assms(1), of err example_Lookup] assms(2)
  by (simp add: example_files)

lemma example_demangle:
  "demangle ''example.com/m/calc.(*Stack).Pop'' = Inr (''Stack'', ''Pop'', True)"
  "demangle ''example.com/m/calc.Stack.Push'' = Inr (''Stack'', ''Push'', True)"
  "demangle ''example.com/m/calc.(*Stack).Push'' = Inr (''Stack'', ''Push'', True)"
  "demangle ''example.com/m/calc.Add.func1'' = Inr (''Add'', ''func1'', True)"
  "demangle ''example.com/m/calc.Add'' = Inr ([], ''Add'', False)"
  "demangle ''memeqbody'' = Inl (Errorf ''unexpected func: memeqbody'')"
  by (simp_all add: demangle_def Trim_def)

lemma example_results:
  "fst (LookupFromFuncForPC example_world example_Lookup 200) =
     Inr (Inr \<lparr>pc = 200, Raw = example_Pop, Recv = ''Stack''\<rparr>)"
  "fst (LookupFromFuncForPC example_world example_Lookup 201) =
     Inr (Inr \<lparr>pc = 201, Raw = example_Push, Recv = ''Stack''\<rparr>)"
  "fst (LookupFromFuncForPC example_world example_Lookup 202) =
     Inr (Inl (External ''open <autogenerated>: no such file or directory''))"
  "fst (LookupFromFuncForPC example_world example_Lookup 301) =
     Inr (Inl (Wrapf ''lookup metadata of method example.com/m/calc.Add.func1, '' ErrNotFound))"
  "fst (LookupFromFuncForPC example_world example_Lookup 400) =
     Inr (Inl (Errorf ''unexpected func: memeqbody''))"
  "fst (LookupFromFuncForPC example_world example_Lookup 450) = Inl NilDereference"
  "fst (LookupFromFuncForPC example_world example_Lookup 500) =
     Inr (Inl (External ''open /usr/local/go/src/internal/bytealg/equal_amd64.s: no such file or directory''))"
proof -
  show "fst (LookupFromFuncForPC example_world example_Lookup 200) =
     Inr (Inr \<lparr>pc = 200, Raw = example_Pop, Recv = ''Stack''\<rparr>)"
    by (simp add: example_lookup [OF example_symbols(1)] example_demangle
          select_Func_method_case example_index)
  show "fst (LookupFromFuncForPC example_world example_Lookup 201) =
     Inr (Inr \<lparr>pc = 201, Raw = example_Push, Recv = ''Stack''\<rparr>)"
    by (simp add: example_lookup [OF example_symbols(2)] example_demangle
          select_Func_method_case example_index)
  show "fst (LookupFromFuncForPC example_world example_Lookup 202) =
     Inr (Inl (External ''open <autogenerated>: no such file or directory''))"
    by (simp add: example_unreadable [OF example_symbols(3) example_parsed(2)])
  show "fst (LookupFromFuncForPC example_world example_Lookup 301) =
     Inr (Inl (Wrapf ''lookup metadata of method example.com/m/calc.Add.func1, '' ErrNotFound))"
    by (simp add: example_lookup [OF example_symbols(4)] example_demangle
          select_Func_method_case example_index)
  show "fst (LookupFromFuncForPC example_world example_Lookup 400) =
     Inr (Inl (Errorf ''unexpected func: memeqbody''))"
    by (simp add: example_lookup [OF example_symbols(5)] example_demangle)
  show "fst (LookupFromFuncForPC example_world example_Lookup 450) = Inl NilDereference"
    using LookupFromFuncForPC_thrown [OF example_symbols(7), of 7 example_Lookup NilDereference]
    by (simp add: example_files example_parse example_parsed)
  show "fst (LookupFromFuncForPC example_world example_Lookup 500) =
     Inr (Inl (External ''open /usr/local/go/src/internal/bytealg/equal_amd64.s: no such file or directory''))"
    by (simp add: example_unreadable [OF example_symbols(6) example_parsed(3)])
qed

subsection \<open>An address without a symbol\<close>

text \<open>
  \<^bold>\<open>C7\<close> (as the code has it).  When the runtime's symbol table has no entry for the
  address, the lookup fails with the error \<open>cannot find runtime.Func\<close>, and the only
  call made is the one to the symbol table: no file is parsed.  The error is not a typed
  one.  It does not wrap \<open>ErrNotFound\<close>, which tells it from a not-found error; but it
  has the same dynamic type as every error that taking a symbol apart returns
  (\<open>unexpected func: ...\<close>), and only the message tells these two apart.
\<close>

theorem LookupFromFuncForPC_no_symbol:
  assumes "FuncForPC w pc' = None"
  shows "LookupFromFuncForPC w l pc' =
           (Inr (Inl (Errorf ''cannot find runtime.Func'')), [Call_FuncForPC pc'])
       \<and> \<not> Is_ErrNotFound (Errorf ''cannot find runtime.Func'')
       \<and> (\<forall>name err. demangle name = Inl err \<longrightarrow>
              TypeOf err = TypeOf (Errorf ''cannot find runtime.Func'')
              \<and> \<not> Is_ErrNotFound err
              \<and> Error err \<noteq> Error (Errorf ''cannot find runtime.Func''))"
proof (intro conjI allI impI)
  show "LookupFromFuncForPC w l pc' =
           (Inr (Inl (Errorf ''cannot find runtime.Func'')), [Call_FuncForPC pc'])"
    using assms by (simp add: LookupFromFuncForPC_def)
next
  fix name err
  assume "demangle name = Inl err"
  then have err: "err = Errorf (''unexpected func: '' @ name)"
    by (rule demangle_error)
  show "TypeOf err = TypeOf (Errorf ''cannot find runtime.Func'')"
    and "\<not> Is_ErrNotFound err"
    and "Error err \<noteq> Error (Errorf ''cannot find runtime.Func'')"
    by (simp_all add: err)
qed simp

theorem LookupFromFuncForPC_no_symbol_witness:
  "LookupFromFuncForPC example_world example_Lookup 999 =
     (Inr (Inl (Errorf ''cannot find runtime.Func'')), [Call_FuncForPC 999])
   \<and> TypeOf (Errorf ''unexpected func: memeqbody'') = TypeOf (Errorf ''cannot find runtime.Func'')
   \<and> Error (Errorf ''unexpected func: memeqbody'') \<noteq> Error (Errorf ''cannot find runtime.Func'')"
proof -
  note none = LookupFromFuncForPC_no_symbol [OF example_symbols(8), of example_Lookup]
  from none have "LookupFromFuncForPC example_world example_Lookup 999 =
     (Inr (Inl (Errorf ''cannot find runtime.Func'')), [Call_FuncForPC 999])"
    by blast
  moreover from none example_demangle(6)
  have "TypeOf (Errorf ''unexpected func: memeqbody'') = TypeOf (Errorf ''cannot find runtime.Func'')
    \<and> Error (Errorf ''unexpected func: memeqbody'') \<noteq> Error (Errorf ''cannot find runtime.Func'')"
    by blast
  ultimately show ?thesis by blast
qed

text \<open>
  The error for a missing symbol and the error for a symbol of unexpected form are both
  built by \<open>fmt.Errorf\<close> without \<open>%w\<close>: they have one dynamic type, neither is or wraps
  a package-level value, and so no test on the type of the error tells them apart.
\<close>

theorem LookupFromFuncForPC_no_symbol_counterexample:
  "fst (LookupFromFuncForPC example_world example_Lookup 999) =
     Inr (Inl (Errorf ''cannot find runtime.Func''))
   \<and> demangle ''memeqbody'' = Inl (Errorf ''unexpected func: memeqbody'')
   \<and> TypeOf (Errorf ''cannot find runtime.Func'') = TypeOf (Errorf ''unexpected func: memeqbody'')
   \<and> TypeOf (Errorf ''cannot find runtime.Func'') = TypeOf ErrNotFound
   \<and> \<not> Is_ErrNotFound (Errorf ''cannot find runtime.Func'')
   \<and> \<not> Is_ErrNotFound (Errorf ''unexpected func: memeqbody'')"
  by (simp add: LookupFromFuncForPC_def example_symbols example_demangle)

subsection \<open>Parse errors\<close>

text \<open>
  \<^bold>\<open>C10.\<close>  Parsing the file of the function fails the lookup only when the parser
  returns no syntax tree: then the lookup returns the parser's error and calls nothing
  else.  When the parser returns a tree together with an error, the error is dropped: the
  lookup behaves in result and calls exactly as if the parser had returned the same tree
  without an error, and it goes on to index that tree (as it does for a tree without an
  error).
\<close>

theorem LookupFromFuncForPC_parse_error:
  assumes "FuncForPC w pc' = Some rfunc"
    and "filename = fst (FileLine rfunc (Entry rfunc))"
  shows "(\<forall>err. ParseFile w filename = NoTree err \<longrightarrow>
            LookupFromFuncForPC w l pc' =
              (Inr (Inl (External err)), [Call_FuncForPC pc', Call_ParseFile filename]))
       \<and> (\<forall>f err. ParseFile w filename = PartialTree f err \<longrightarrow>
            LookupFromFuncForPC w l pc' =
              LookupFromFuncForPC (w\<lparr>ParseFile := (ParseFile w)(filename := Tree f)\<rparr>) l pc'
            \<and> Call_commentof_File f (IncludeUnexported l) \<in> set (snd (LookupFromFuncForPC w l pc')))
       \<and> (\<forall>f. ParseFile w filename = Tree f \<longrightarrow>
            Call_commentof_File f (IncludeUnexported l) \<in> set (snd (LookupFromFuncForPC w l pc')))"
proof (intro conjI allI impI)
  fix err
  assume "ParseFile w filename = NoTree err"
  then show "LookupFromFuncForPC w l pc' =
      (Inr (Inl (External err)), [Call_FuncForPC pc', Call_ParseFile filename])"
    using LookupFromFuncForPC_unreadable [OF assms(1), of err l] assms(2) by simp
next
  fix f err
  assume p: "ParseFile w filename = PartialTree f err"
  let ?w = "w\<lparr>ParseFile := (ParseFile w)(filename := Tree f)\<rparr>"
  have "FuncForPC ?w pc' = Some rfunc"
    using assms(1) by simp
  from LookupFromFuncForPC_found [OF this, of l] LookupFromFuncForPC_found [OF assms(1), of l]
  show "LookupFromFuncForPC w l pc' = LookupFromFuncForPC ?w l pc'"
    using p assms(2) by simp
  show "Call_commentof_File f (IncludeUnexported l) \<in> set (snd (LookupFromFuncForPC w l pc'))"
    using LookupFromFuncForPC_calls_indexer [OF assms(1), of f l] p assms(2) by simp
next
  fix f
  assume "ParseFile w filename = Tree f"
  then show "Call_commentof_File f (IncludeUnexported l) \<in> set (snd (LookupFromFuncForPC w l pc'))"
    using LookupFromFuncForPC_calls_indexer [OF assms(1), of f l] assms(2) by simp
qed

theorem LookupFromFuncForPC_parse_error_witness:
  "LookupFromFuncForPC example_world example_Lookup 500 =
     (Inr (Inl (External ''open /usr/local/go/src/internal/bytealg/equal_amd64.s: no such file or directory'')),
      [Call_FuncForPC 500, Call_ParseFile ''/usr/local/go/src/internal/bytealg/equal_amd64.s''])
   \<and> LookupFromFuncForPC example_world example_Lookup 200 =
       LookupFromFuncForPC
         (example_world\<lparr>ParseFile := (ParseFile example_world)(''/src/m/calc/stack.go'' := Tree 1)\<rparr>)
         example_Lookup 200
   \<and> Call_commentof_File 1 (IncludeUnexported example_Lookup)
       \<in> set (snd (LookupFromFuncForPC example_world example_Lookup 200))"
proof -
  note unreadable =
    LookupFromFuncForPC_parse_error [OF example_symbols(6) example_files(1) [symmetric], of example_Lookup]
  note partial =
    LookupFromFuncForPC_parse_error [OF example_symbols(1) example_files(1) [symmetric], of example_Lookup]
  from unreadable example_parse(2)
  have "LookupFromFuncForPC example_world example_Lookup 500 =
     (Inr (Inl (External ''open /usr/local/go/src/internal/bytealg/equal_amd64.s: no such file or directory'')),
      [Call_FuncForPC 500, Call_ParseFile ''/usr/local/go/src/internal/bytealg/equal_amd64.s''])"
    by blast
  moreover from partial example_parse(1)
  have "LookupFromFuncForPC example_world example_Lookup 200 =
       LookupFromFuncForPC
         (example_world\<lparr>ParseFile := (ParseFile example_world)(''/src/m/calc/stack.go'' := Tree 1)\<rparr>)
         example_Lookup 200
     \<and> Call_commentof_File 1 (IncludeUnexported example_Lookup)
       \<in> set (snd (LookupFromFuncForPC example_world example_Lookup 200))"
    by blast
  ultimately show ?thesis by blast
qed

subsection \<open>Symbols without a local name\<close>

text \<open>
  \<^bold>\<open>C8\<close> (as the code has it).  Let the last \<open>/\<close>-separated part of the symbol have no
  \<open>.\<close>.  Then the lookup never returns metadata.  The file is parsed and indexed before
  the symbol is taken apart: when the parser returns a tree and the indexer returns an
  index, the lookup fails with the error \<open>unexpected func: <symbol>\<close>, which does not
  wrap \<open>ErrNotFound\<close>; when the parser returns no tree, or the indexer returns an error,
  the lookup fails with that error instead.
\<close>

theorem LookupFromFuncForPC_no_dot:
  assumes "FuncForPC w pc' = Some rfunc"
    and "runtime_Func.Name rfunc = dir @ seg"
    and "dir = [] \<or> last dir = CHR ''/''"
    and "CHR ''/'' \<notin> set seg"
    and "CHR ''.'' \<notin> set seg"
  shows "(\<forall>m. fst (LookupFromFuncForPC w l pc') \<noteq> Inr (Inr m))
       \<and> (\<forall>f p. parsed (ParseFile w (fst (FileLine rfunc (Entry rfunc)))) = Inr f
                \<and> commentof_File w (IncludeUnexported l) f = Inr (Inr p) \<longrightarrow>
              fst (LookupFromFuncForPC w l pc') =
                Inr (Inl (Errorf (''unexpected func: '' @ runtime_Func.Name rfunc))))
       \<and> (\<forall>err. parsed (ParseFile w (fst (FileLine rfunc (Entry rfunc)))) = Inl err \<longrightarrow>
              fst (LookupFromFuncForPC w l pc') = Inr (Inl (External err)))
       \<and> (\<forall>f err. parsed (ParseFile w (fst (FileLine rfunc (Entry rfunc)))) = Inr f
                \<and> commentof_File w (IncludeUnexported l) f = Inr (Inl err) \<longrightarrow>
              fst (LookupFromFuncForPC w l pc') = Inr (Inl (External err)))
       \<and> \<not> Is_ErrNotFound (Errorf (''unexpected func: '' @ runtime_Func.Name rfunc))"
proof -
  have d: "demangle (runtime_Func.Name rfunc) =
      Inl (Errorf (''unexpected func: '' @ runtime_Func.Name rfunc))"
    using assms(2-5) demangle_no_dot [of seg dir] by simp
  have "fst (LookupFromFuncForPC w l pc') \<noteq> Inr (Inr m)" for m
    unfolding LookupFromFuncForPC_found [OF assms(1)] d
    by (simp split: sum.split)
  moreover have "fst (LookupFromFuncForPC w l pc') =
      Inr (Inl (Errorf (''unexpected func: '' @ runtime_Func.Name rfunc)))"
    if "parsed (ParseFile w (fst (FileLine rfunc (Entry rfunc)))) = Inr f"
      and "commentof_File w (IncludeUnexported l) f = Inr (Inr p)" for f p
    using LookupFromFuncForPC_indexed [OF assms(1) that] d by simp
  moreover have "fst (LookupFromFuncForPC w l pc') = Inr (Inl (External err))"
    if "parsed (ParseFile w (fst (FileLine rfunc (Entry rfunc)))) = Inl err" for err
    using LookupFromFuncForPC_unreadable [OF assms(1) that, of l] by simp
  moreover have "fst (LookupFromFuncForPC w l pc') = Inr (Inl (External err))"
    if "parsed (ParseFile w (fst (FileLine rfunc (Entry rfunc)))) = Inr f"
      and "commentof_File w (IncludeUnexported l) f = Inr (Inl err)" for f err
    using LookupFromFuncForPC_index_error [OF assms(1) that] .
  ultimately show ?thesis by simp
qed

theorem LookupFromFuncForPC_no_dot_witness:
  "fst (LookupFromFuncForPC example_world example_Lookup 400) =
     Inr (Inl (Errorf ''unexpected func: memeqbody''))
   \<and> fst (LookupFromFuncForPC example_world example_Lookup 500) =
       Inr (Inl (External ''open /usr/local/go/src/internal/bytealg/equal_amd64.s: no such file or directory''))
   \<and> (\<forall>m. fst (LookupFromFuncForPC example_world example_Lookup 450) \<noteq> Inr (Inr m))"
proof -
  have shape: "[] = [] \<or> last [] = CHR ''/''" "CHR ''/'' \<notin> set ''memeqbody''"
    "CHR ''.'' \<notin> set ''memeqbody''"
    by simp_all
  have name: "runtime_Func.Name (example_symbol ''memeqbody'' a src) = [] @ ''memeqbody''" for a src
    by (simp add: example_files)
  note go = LookupFromFuncForPC_no_dot [OF example_symbols(5) name shape, of example_Lookup]
  note missing = LookupFromFuncForPC_no_dot [OF example_symbols(6) name shape, of example_Lookup]
  note asm = LookupFromFuncForPC_no_dot [OF example_symbols(7) name shape, of example_Lookup]
  from go have "parsed (ParseFile example_world ''/src/m/calc/stack.go'') = Inr 1
      \<and> commentof_File example_world (IncludeUnexported example_Lookup) 1 = Inr (Inr example_calc) \<longrightarrow>
    fst (LookupFromFuncForPC example_world example_Lookup 400) =
      Inr (Inl (Errorf (''unexpected func: '' @ ''memeqbody'')))"
    unfolding example_files by blast
  then have "fst (LookupFromFuncForPC example_world example_Lookup 400) =
     Inr (Inl (Errorf ''unexpected func: memeqbody''))"
    by (simp add: example_parsed example_parse)
  moreover from missing
  have "parsed (ParseFile example_world ''/usr/local/go/src/internal/bytealg/equal_amd64.s'') =
      Inl ''open /usr/local/go/src/internal/bytealg/equal_amd64.s: no such file or directory'' \<longrightarrow>
    fst (LookupFromFuncForPC example_world example_Lookup 500) =
       Inr (Inl (External ''open /usr/local/go/src/internal/bytealg/equal_amd64.s: no such file or directory''))"
    unfolding example_files by blast
  then have "fst (LookupFromFuncForPC example_world example_Lookup 500) =
       Inr (Inl (External ''open /usr/local/go/src/internal/bytealg/equal_amd64.s: no such file or directory''))"
    by (simp add: example_parsed)
  moreover from asm
  have "\<forall>m. fst (LookupFromFuncForPC example_world example_Lookup 450) \<noteq> Inr (Inr m)"
    by blast
  ultimately show ?thesis by blast
qed

text \<open>
  The sentence without the condition on parsing does not hold: the assembly routine
  \<open>memeqbody\<close> has a symbol without \<open>.\<close>, its source file is not on disk, and the lookup
  returns the parser's error, not the error for a symbol of unexpected form.
\<close>

theorem LookupFromFuncForPC_no_dot_counterexample:
  "FuncForPC example_world 500 =
     Some (example_symbol ''memeqbody'' 500 ''/usr/local/go/src/internal/bytealg/equal_amd64.s'')
   \<and> CHR ''.'' \<notin> set (last (Split ''memeqbody'' CHR ''/''))
   \<and> fst (LookupFromFuncForPC example_world example_Lookup 500) =
       Inr (Inl (External ''open /usr/local/go/src/internal/bytealg/equal_amd64.s: no such file or directory''))
   \<and> fst (LookupFromFuncForPC example_world example_Lookup 500) \<noteq>
       Inr (Inl (Errorf ''unexpected func: memeqbody''))"
  by (simp add: example_results example_symbols)

subsection \<open>Taking a symbol apart\<close>

text \<open>
  \<^bold>\<open>C4\<close> (as the code has it).  The symbol is split at \<open>/\<close> and only its last part
  \<open>pkg.rest\<close> is used.  When \<open>rest\<close> has no \<open>.\<close> the symbol names a function.  When it has
  one, the text before its first \<open>.\<close> is the receiver, from which leading and trailing
  \<open>(\<close>, \<open>*\<close> and \<open>)\<close> are removed (so \<open>(*T)\<close> becomes \<open>T\<close>), the text after it is the
  name, and the lookup, once the file is parsed and indexed, selects the method record of
  that name in the type record of that receiver.  A function literal is not told from a
  method: its symbol \<open>pkg.F.func1\<close> has the receiver \<open>F\<close> and the name \<open>func1\<close>.
\<close>

theorem demangle_forms:
  assumes "dir = [] \<or> last dir = CHR ''/''"
    and "CHR ''/'' \<notin> set (pkg @ recv @ name)"
    and "CHR ''.'' \<notin> set (pkg @ recv)"
  shows "demangle (dir @ pkg @ ''.'' @ recv @ ''.'' @ name) = Inr (Trim recv ''(*)'', name, True)
       \<and> (CHR ''.'' \<notin> set name \<longrightarrow> demangle (dir @ pkg @ ''.'' @ name) = Inr ([], name, False))
       \<and> (\<forall>t. recv = ''(*'' @ t @ '')'' \<and> (t = [] \<or> hd t \<notin> set ''(*)'' \<and> last t \<notin> set ''(*)'') \<longrightarrow>
              Trim recv ''(*)'' = t)
       \<and> (\<forall>f p rfunc.
              FuncForPC w pc' = Some rfunc
              \<and> runtime_Func.Name rfunc = dir @ pkg @ ''.'' @ recv @ ''.'' @ name
              \<and> parsed (ParseFile w (fst (FileLine rfunc (Entry rfunc)))) = Inr f
              \<and> commentof_File w (IncludeUnexported l) f = Inr (Inr p) \<longrightarrow>
              fst (LookupFromFuncForPC w l pc') =
                Inr (case Types p (Trim recv ''(*)'') of
                       None \<Rightarrow> Inl (Wrapf (''lookup metadata of method '' @ runtime_Func.Name rfunc @ '', '') ErrNotFound)
                     | Some ob \<Rightarrow>
                         (case Methods ob name of
                            None \<Rightarrow> Inl (Wrapf (''lookup metadata of method '' @ runtime_Func.Name rfunc @ '', '') ErrNotFound)
                          | Some result \<Rightarrow> Inr \<lparr>pc = pc', Raw = result, Recv = Trim recv ''(*)''\<rparr>)))"
proof (intro conjI allI impI; (elim conjE)?)
  show m: "demangle (dir @ pkg @ ''.'' @ recv @ ''.'' @ name) = Inr (Trim recv ''(*)'', name, True)"
    using assms by (intro demangle_method) auto
  show "demangle (dir @ pkg @ ''.'' @ name) = Inr ([], name, False)" if "CHR ''.'' \<notin> set name"
    using assms that by (intro demangle_function) auto
  show "Trim recv ''(*)'' = t"
    if "recv = ''(*'' @ t @ '')''" and "t = [] \<or> hd t \<notin> set ''(*)'' \<and> last t \<notin> set ''(*)''" for t
    using that Trim_markers [of "''(*''" "''(*)''" "'')''" t] by simp
  show "fst (LookupFromFuncForPC w l pc') =
                Inr (case Types p (Trim recv ''(*)'') of
                       None \<Rightarrow> Inl (Wrapf (''lookup metadata of method '' @ runtime_Func.Name rfunc @ '', '') ErrNotFound)
                     | Some ob \<Rightarrow>
                         (case Methods ob name of
                            None \<Rightarrow> Inl (Wrapf (''lookup metadata of method '' @ runtime_Func.Name rfunc @ '', '') ErrNotFound)
                          | Some result \<Rightarrow> Inr \<lparr>pc = pc', Raw = result, Recv = Trim recv ''(*)''\<rparr>))"
    if "FuncForPC w pc' = Some rfunc"
      and "runtime_Func.Name rfunc = dir @ pkg @ ''.'' @ recv @ ''.'' @ name"
      and "parsed (ParseFile w (fst (FileLine rfunc (Entry rfunc)))) = Inr f"
      and "commentof_File w (IncludeUnexported l) f = Inr (Inr p)" for f p rfunc
  proof -
    have "demangle (runtime_Func.Name rfunc) = Inr (Trim recv ''(*)'', name, True)"
      using m that(2) by simp
    then show ?thesis
      unfolding LookupFromFuncForPC_indexed [OF that(1,3,4)]
      by (simp add: select_Func_method_case)
  qed
qed

theorem demangle_forms_witness:
  "demangle ''example.com/m/calc.(*Stack).Pop'' = Inr (''Stack'', ''Pop'', True)
   \<and> demangle ''example.com/m/calc.Add'' = Inr ([], ''Add'', False)
   \<and> fst (LookupFromFuncForPC example_world example_Lookup 200) =
       Inr (Inr \<lparr>pc = 200, Raw = example_Pop, Recv = ''Stack''\<rparr>)"
proof -
  have t: "Trim ''(*Stack)'' ''(*)'' = ''Stack''"
    by (simp add: Trim_def)
  have shape: "''example.com/m/'' = [] \<or> last ''example.com/m/'' = CHR ''/''"
    "CHR ''/'' \<notin> set (''calc'' @ ''(*Stack)'' @ ''Pop'')"
    "CHR ''.'' \<notin> set (''calc'' @ ''(*Stack)'')"
    "CHR ''/'' \<notin> set (''calc'' @ ''(*Stack)'' @ ''Add'')"
    by simp_all
  note pop = demangle_forms [OF shape(1,2,3), where w = example_world and pc' = 200 and l = example_Lookup]
  note add = demangle_forms [OF shape(1,4,3), where w = example_world and pc' = 200 and l = example_Lookup]
  have one: "demangle ''example.com/m/calc.(*Stack).Pop'' = Inr (''Stack'', ''Pop'', True)"
    using pop [THEN conjunct1] by (simp add: t)
  have two: "demangle ''example.com/m/calc.Add'' = Inr ([], ''Add'', False)"
    using add [THEN conjunct2, THEN conjunct1] by simp
  let ?rfunc = "example_symbol ''example.com/m/calc.(*Stack).Pop'' 200 ''/src/m/calc/stack.go''"
  have nm: "runtime_Func.Name ?rfunc = ''example.com/m/'' @ ''calc'' @ ''.'' @ ''(*Stack)'' @ ''.'' @ ''Pop''"
    by (simp add: example_files)
  have pr: "parsed (ParseFile example_world (fst (FileLine ?rfunc (Entry ?rfunc)))) = Inr 1"
    by (simp add: example_files example_parsed)
  have ix: "commentof_File example_world (IncludeUnexported example_Lookup) 1 = Inr (Inr example_calc)"
    by (simp add: example_parse)
  note found = pop [THEN conjunct2, THEN conjunct2, THEN conjunct2, rule_format,
      OF conjI [OF example_symbols(1) conjI [OF nm conjI [OF pr ix]]]]
  have three: "fst (LookupFromFuncForPC example_world example_Lookup 200) =
       Inr (Inr \<lparr>pc = 200, Raw = example_Pop, Recv = ''Stack''\<rparr>)"
    unfolding found by (simp add: t example_index)
  from one two three show ?thesis by (intro conjI)
qed

text \<open>
  The symbol of a function literal in \<open>Add\<close>, \<open>calc.Add.func1\<close>, is taken for the method
  \<open>func1\<close> of a type \<open>Add\<close> and looked up among the method records, where the lookup
  fails with its error for methods.
\<close>

theorem demangle_suffix_counterexample:
  "FuncForPC example_world 301 =
     Some (example_symbol ''example.com/m/calc.Add.func1'' 301 ''/src/m/calc/stack.go'')
   \<and> demangle ''example.com/m/calc.Add.func1'' = Inr (''Add'', ''func1'', True)
   \<and> fst (LookupFromFuncForPC example_world example_Lookup 301) =
       Inr (Inl (Wrapf ''lookup metadata of method example.com/m/calc.Add.func1, '' ErrNotFound))"
  by (simp add: example_symbols example_demangle example_results)

subsection \<open>Pointer and value receivers\<close>

text \<open>
  \<^bold>\<open>C5\<close> (as the code has it).  Let \<open>T\<close> be a type name (no \<open>.\<close>, and neither starting
  nor ending with one of \<open>(\<close>, \<open>*\<close>, \<open>)\<close>) and \<open>M\<close> a method name.  The pointer-receiver
  symbol \<open>pkg.(*T).M\<close> and the value-receiver symbol \<open>pkg.T.M\<close> are both taken apart into
  the receiver \<open>T\<close> and the name \<open>M\<close>, because the receiver markers are stripped before
  the record is selected; so from one and the same index both select the same
  declaration record, with the same receiver.  A lookup gets to the selection only after
  the file that its own symbol reports has been parsed and indexed: for either symbol it
  then returns the record of \<open>M\<close> in the type \<open>T\<close> of that index, and when the parser
  returns no tree for that file it returns the parser's error.
\<close>

theorem LookupFromFuncForPC_receiver_forms:
  assumes "dir = [] \<or> last dir = CHR ''/''"
    and "CHR ''/'' \<notin> set (pkg @ T @ M)"
    and "CHR ''.'' \<notin> set (pkg @ T)"
    and "T = [] \<or> hd T \<notin> set ''(*)'' \<and> last T \<notin> set ''(*)''"
    and "psym = dir @ pkg @ ''.(*'' @ T @ '').'' @ M"
    and "vsym = dir @ pkg @ ''.'' @ T @ ''.'' @ M"
  shows "demangle psym = Inr (T, M, True)
       \<and> demangle vsym = Inr (T, M, True)
       \<and> (\<forall>p a1 a2 m. select_Func p a1 psym (T, M, True) = Inr m \<longrightarrow>
             select_Func p a2 vsym (T, M, True) = Inr (m\<lparr>pc := a2\<rparr>) \<and> Recv m = T)
       \<and> (\<forall>p a1 a2 m. select_Func p a2 vsym (T, M, True) = Inr m \<longrightarrow>
             select_Func p a1 psym (T, M, True) = Inr (m\<lparr>pc := a1\<rparr>) \<and> Recv m = T)
       \<and> (\<forall>rfunc tree p m.
             FuncForPC w a = Some rfunc
             \<and> (runtime_Func.Name rfunc = psym \<or> runtime_Func.Name rfunc = vsym)
             \<and> parsed (ParseFile w (fst (FileLine rfunc (Entry rfunc)))) = Inr tree
             \<and> commentof_File w (IncludeUnexported l) tree = Inr (Inr p) \<longrightarrow>
             (fst (LookupFromFuncForPC w l a) = Inr (Inr m)) =
               (\<exists>ob result. Types p T = Some ob \<and> Methods ob M = Some result
                  \<and> m = \<lparr>pc = a, Raw = result, Recv = T\<rparr>))
       \<and> (\<forall>rfunc err.
             FuncForPC w a = Some rfunc
             \<and> (runtime_Func.Name rfunc = psym \<or> runtime_Func.Name rfunc = vsym)
             \<and> parsed (ParseFile w (fst (FileLine rfunc (Entry rfunc)))) = Inl err \<longrightarrow>
             fst (LookupFromFuncForPC w l a) = Inr (Inl (External err)))"
proof -
  have "Trim (''(*'' @ T @ '')'') ''(*)'' = T" and "Trim T ''(*)'' = T"
    using assms(4) Trim_markers [of "''(*''" "''(*)''" "'')''" T] Trim_markers [of "[]" "''(*)''" "[]" T]
    by simp_all
  moreover have "demangle (dir @ pkg @ ''.'' @ (''(*'' @ T @ '')'') @ ''.'' @ M) =
      Inr (Trim (''(*'' @ T @ '')'') ''(*)'', M, True)"
    using assms(1-3) by (intro demangle_method) auto
  moreover have "demangle (dir @ pkg @ ''.'' @ T @ ''.'' @ M) = Inr (Trim T ''(*)'', M, True)"
    using assms(1-3) by (intro demangle_method) auto
  ultimately have d: "demangle psym = Inr (T, M, True)" "demangle vsym = Inr (T, M, True)"
    using assms(5,6) by simp_all
  have sel: "select_Func p a2 s2 (T, M, True) = Inr (m\<lparr>pc := a2\<rparr>) \<and> Recv m = T"
    if "select_Func p a1 s1 (T, M, True) = Inr m" for p a1 a2 s1 s2 m
  proof -
    from that obtain ob result where "Types p T = Some ob" and "Methods ob M = Some result"
      and m: "m = \<lparr>pc = a1, Raw = result, Recv = T\<rparr>"
      unfolding select_Func_method by blast
    then have "select_Func p a2 s2 (T, M, True) = Inr \<lparr>pc = a2, Raw = result, Recv = T\<rparr>"
      unfolding select_Func_method by blast
    with m show ?thesis by simp
  qed
  have found: "(fst (LookupFromFuncForPC w l a) = Inr (Inr m)) =
               (\<exists>ob result. Types p T = Some ob \<and> Methods ob M = Some result
                  \<and> m = \<lparr>pc = a, Raw = result, Recv = T\<rparr>)"
    if "FuncForPC w a = Some rfunc"
      and "runtime_Func.Name rfunc = psym \<or> runtime_Func.Name rfunc = vsym"
      and "parsed (ParseFile w (fst (FileLine rfunc (Entry rfunc)))) = Inr tree"
      and "commentof_File w (IncludeUnexported l) tree = Inr (Inr p)"
    for rfunc tree p m
  proof -
    from that(2) d have "demangle (runtime_Func.Name rfunc) = Inr (T, M, True)"
      by auto
    then show ?thesis
      unfolding LookupFromFuncForPC_indexed [OF that(1,3,4)]
      by (simp add: select_Func_method)
  qed
  have unreadable: "fst (LookupFromFuncForPC w l a) = Inr (Inl (External err))"
    if "FuncForPC w a = Some rfunc"
      and "parsed (ParseFile w (fst (FileLine rfunc (Entry rfunc)))) = Inl err"
    for rfunc err
    using LookupFromFuncForPC_unreadable [OF that, of l] by simp
  show ?thesis
  proof (intro conjI allI impI; (elim conjE)?)
    fix rfunc tree p m
    assume "FuncForPC w a = Some rfunc"
      and "runtime_Func.Name rfunc = psym \<or> runtime_Func.Name rfunc = vsym"
      and "parsed (ParseFile w (fst (FileLine rfunc (Entry rfunc)))) = Inr tree"
      and "commentof_File w (IncludeUnexported l) tree = Inr (Inr p)"
    then show "(fst (LookupFromFuncForPC w l a) = Inr (Inr m)) =
               (\<exists>ob result. Types p T = Some ob \<and> Methods ob M = Some result
                  \<and> m = \<lparr>pc = a, Raw = result, Recv = T\<rparr>)"
      by (rule found)
  next
    fix rfunc err
    assume "FuncForPC w a = Some rfunc"
      and "runtime_Func.Name rfunc = psym \<or> runtime_Func.Name rfunc = vsym"
      and "parsed (ParseFile w (fst (FileLine rfunc (Entry rfunc)))) = Inl err"
    then show "fst (LookupFromFuncForPC w l a) = Inr (Inl (External err))"
      using unreadable by blast
  qed (use d sel in blast)+
qed

theorem LookupFromFuncForPC_receiver_forms_witness:
  "demangle ''example.com/m/calc.(*Stack).Push'' = Inr (''Stack'', ''Push'', True)
   \<and> demangle ''example.com/m/calc.Stack.Push'' = Inr (''Stack'', ''Push'', True)
   \<and> select_Func example_calc 202 ''example.com/m/calc.(*Stack).Push'' (''Stack'', ''Push'', True) =
       Inr \<lparr>pc = 202, Raw = example_Push, Recv = ''Stack''\<rparr>
   \<and> fst (LookupFromFuncForPC example_world example_Lookup 202) =
       Inr (Inl (External ''open <autogenerated>: no such file or directory''))"
proof -
  have shape: "''example.com/m/'' = [] \<or> last ''example.com/m/'' = CHR ''/''"
    "CHR ''/'' \<notin> set (''calc'' @ ''Stack'' @ ''Push'')"
    "CHR ''.'' \<notin> set (''calc'' @ ''Stack'')"
    "''Stack'' = [] \<or> hd ''Stack'' \<notin> set ''(*)'' \<and> last ''Stack'' \<notin> set ''(*)''"
    "''example.com/m/calc.(*Stack).Push'' = ''example.com/m/'' @ ''calc'' @ ''.(*'' @ ''Stack'' @ '').'' @ ''Push''"
    "''example.com/m/calc.Stack.Push'' = ''example.com/m/'' @ ''calc'' @ ''.'' @ ''Stack'' @ ''.'' @ ''Push''"
    by simp_all
  note forms = LookupFromFuncForPC_receiver_forms
    [OF shape, where w = example_world and a = 202 and l = example_Lookup]
  note d1 = forms [THEN conjunct1]
  note d2 = forms [THEN conjunct2, THEN conjunct1]
  have v: "select_Func example_calc 201 ''example.com/m/calc.Stack.Push'' (''Stack'', ''Push'', True) =
      Inr \<lparr>pc = 201, Raw = example_Push, Recv = ''Stack''\<rparr>"
    by (simp add: select_Func_method_case example_index)
  note ptr = forms [THEN conjunct2, THEN conjunct2, THEN conjunct2, THEN conjunct1,
      rule_format, OF v, THEN conjunct1, of 202]
  have p: "select_Func example_calc 202 ''example.com/m/calc.(*Stack).Push'' (''Stack'', ''Push'', True) =
       Inr \<lparr>pc = 202, Raw = example_Push, Recv = ''Stack''\<rparr>"
    using ptr by simp
  let ?rfunc = "example_symbol ''example.com/m/calc.(*Stack).Push'' 202 ''<autogenerated>''"
  have nm: "runtime_Func.Name ?rfunc = ''example.com/m/calc.(*Stack).Push''
      \<or> runtime_Func.Name ?rfunc = ''example.com/m/calc.Stack.Push''"
    by (simp add: example_files)
  have pr: "parsed (ParseFile example_world (fst (FileLine ?rfunc (Entry ?rfunc)))) =
      Inl ''open <autogenerated>: no such file or directory''"
    by (simp add: example_files example_parsed)
  note wrapper = forms [THEN conjunct2, THEN conjunct2, THEN conjunct2, THEN conjunct2, THEN conjunct2,
      rule_format, OF conjI [OF example_symbols(3) conjI [OF nm pr]]]
  from d1 d2 p wrapper show ?thesis by (intro conjI)
qed

text \<open>
  The two lookups of a pair need not agree.  \<open>Push\<close> is declared with a value receiver
  in \<open>stack.go\<close>; the symbol \<open>calc.(*Stack).Push\<close> belongs to the wrapper that the
  compiler generates, whose file \<open><autogenerated>\<close> cannot be opened.  The lookup for the
  value-receiver symbol returns the record, the lookup for the pointer-receiver symbol
  returns the parser's error.
\<close>

theorem LookupFromFuncForPC_receiver_forms_counterexample:
  "FuncForPC example_world 201 =
     Some (example_symbol ''example.com/m/calc.Stack.Push'' 201 ''/src/m/calc/stack.go'')
   \<and> FuncForPC example_world 202 =
     Some (example_symbol ''example.com/m/calc.(*Stack).Push'' 202 ''<autogenerated>'')
   \<and> fst (LookupFromFuncForPC example_world example_Lookup 201) =
       Inr (Inr \<lparr>pc = 201, Raw = example_Push, Recv = ''Stack''\<rparr>)
   \<and> fst (LookupFromFuncForPC example_world example_Lookup 202) =
       Inr (Inl (External ''open <autogenerated>: no such file or directory''))"
  by (simp add: example_symbols example_results)

section \<open>Results and calls of the struct lookup\<close>

lemma scan_pkgs_found:
  "fst (scan_pkgs w l rt pkgpath pkgs) = Inr s \<Longrightarrow>
     \<exists>pkg \<in> set pkgs. Errors pkg = [] \<and> packages_Package.PkgPath pkg = pkgpath
       \<and> (\<exists>p. commentof_Package w (IncludeUnexported l) (packages_Package.Name pkg) (tree_Files w pkg) = Inr p
              \<and> Types p (reflect_Type.Name rt) = Some (Struct.Raw s))"
proof (induction pkgs)
  case Nil
  then show ?case by simp
next
  case (Cons pkg pkgs)
  then show ?case
    by (auto simp: Let_def split: if_splits sum.splits option.splits)
qed

lemma scan_pkgs_calls:
  "Call_commentof_Package name files b \<in> set (snd (scan_pkgs w l rt pkgpath pkgs)) \<Longrightarrow>
     \<exists>pkg \<in> set pkgs. Errors pkg = [] \<and> packages_Package.PkgPath pkg = pkgpath
       \<and> name = packages_Package.Name pkg \<and> files = tree_Files w pkg \<and> b = IncludeUnexported l"
proof (induction pkgs)
  case Nil
  then show ?case by simp
next
  case (Cons pkg pkgs)
  then show ?case
    by (auto simp: Let_def split: if_splits sum.splits option.splits)
qed

lemma scan_pkgs_no_Load:
  "Call_Load path tests \<notin> set (snd (scan_pkgs w l rt pkgpath pkgs))"
  by (induction pkgs) (auto simp: Let_def split: if_splits sum.splits option.splits)

lemma scan_pkgs_filter:
  "fst (scan_pkgs w l rt pkgpath pkgs) =
   fst (scan_pkgs w l rt pkgpath
          (filter (\<lambda>pkg. Errors pkg = [] \<and> packages_Package.PkgPath pkg = pkgpath) pkgs))"
  by (induction pkgs) (auto simp: Let_def split: if_splits sum.splits option.splits)

lemma scan_pkgs_append:
  assumes "\<forall>pkg \<in> set pre. Errors pkg = [] \<and> packages_Package.PkgPath pkg = pkgpath \<longrightarrow>
     (\<exists>p. commentof_Package w (IncludeUnexported l) (packages_Package.Name pkg) (tree_Files w pkg) = Inr p
        \<and> Types p (reflect_Type.Name rt) = None)"
  shows "fst (scan_pkgs w l rt pkgpath (pre @ rest)) = fst (scan_pkgs w l rt pkgpath rest)"
  using assms by (induction pre) (auto simp: Let_def)

lemma scan_pkgs_not_found:
  assumes "\<forall>pkg \<in> set pkgs. Errors pkg = [] \<and> packages_Package.PkgPath pkg = pkgpath \<longrightarrow>
     (\<exists>p. commentof_Package w (IncludeUnexported l) (packages_Package.Name pkg) (tree_Files w pkg) = Inr p
        \<and> Types p (reflect_Type.Name rt) = None)"
  shows "fst (scan_pkgs w l rt pkgpath pkgs) =
     Inl (Wrapf (''lookup metadata of '' @ String rt @ '' is failed '') ErrNotFound)"
  using scan_pkgs_append [OF assms, of "[]"] by simp

lemma Lookup_resolved:
  assumes "fst (resolve_pkgpath w rt) = Inr pkgpath"
  shows "LookupFromStructForReflectType w l rt =
           after (snd (resolve_pkgpath w rt)) (load_pkgs w l rt pkgpath)"
  using assms by (cases "resolve_pkgpath w rt") (auto simp: LookupFromStructForReflectType_def)

lemma Lookup_unresolved:
  assumes "fst (resolve_pkgpath w rt) = Inl err"
  shows "LookupFromStructForReflectType w l rt = (Inl err, snd (resolve_pkgpath w rt))"
  using assms by (cases "resolve_pkgpath w rt") (auto simp: LookupFromStructForReflectType_def)

lemma resolve_pkgpath_no_index:
  "Call_commentof_Package name files b \<notin> set (snd (resolve_pkgpath w rt))"
  by (auto simp: resolve_pkgpath_def Let_def split: option.splits)

subsection \<open>Types of the main package\<close>

text \<open>
  \<^bold>\<open>C6.\<close>  Let the package path of the reflected type be \<open>main\<close>.  When the build
  information of the binary cannot be read, the lookup fails with \<open>ErrNotFound\<close>, having
  read the build information and written a log line and nothing else: no package is
  loaded.  When it can be read, the lookup is the load-and-scan for the path of the main
  package recorded there: the one call of the loader comes right after the build
  information is read and is given that path.
\<close>

theorem LookupFromStructForReflectType_main:
  assumes "reflect_Type.PkgPath rt = ''main''"
  shows "(ReadBuildInfo w = None \<longrightarrow>
            LookupFromStructForReflectType w l rt =
              (Inl ErrNotFound, [Call_ReadBuildInfo, Log ''debug.ReadBuildInfo() is failed''])
            \<and> Is_ErrNotFound ErrNotFound)
       \<and> (\<forall>binfo. ReadBuildInfo w = Some binfo \<longrightarrow>
            LookupFromStructForReflectType w l rt =
              after [Call_ReadBuildInfo] (load_pkgs w l rt (Path binfo))
            \<and> (\<exists>rest. snd (LookupFromStructForReflectType w l rt) =
                   Call_ReadBuildInfo # Call_Load (Path binfo) (Lookup.IncludeGoTestFiles l) # rest
                 \<and> (\<forall>path tests. Call_Load path tests \<notin> set rest)))"
proof (intro conjI allI impI)
  fix binfo
  assume b: "ReadBuildInfo w = Some binfo"
  with assms show eq: "LookupFromStructForReflectType w l rt =
      after [Call_ReadBuildInfo] (load_pkgs w l rt (Path binfo))"
    by (simp add: LookupFromStructForReflectType_def resolve_pkgpath_def)
  show "\<exists>rest. snd (LookupFromStructForReflectType w l rt) =
                   Call_ReadBuildInfo # Call_Load (Path binfo) (Lookup.IncludeGoTestFiles l) # rest
                 \<and> (\<forall>path tests. Call_Load path tests \<notin> set rest)"
    unfolding eq
    by (cases "Load w (Lookup.IncludeGoTestFiles l) (Path binfo)")
       (simp_all add: load_pkgs_def scan_pkgs_no_Load)
qed (use assms in \<open>simp_all add: LookupFromStructForReflectType_def resolve_pkgpath_def\<close>)

theorem LookupFromStructForReflectType_main_witness:
  "LookupFromStructForReflectType (example_world\<lparr>ReadBuildInfo := None\<rparr>) example_Lookup
       (example_Type ''main'' ''User'') =
     (Inl ErrNotFound, [Call_ReadBuildInfo, Log ''debug.ReadBuildInfo() is failed''])
   \<and> LookupFromStructForReflectType example_world example_Lookup (example_Type ''main'' ''User'') =
       after [Call_ReadBuildInfo]
         (load_pkgs example_world example_Lookup (example_Type ''main'' ''User'') ''example.com/m'')"
proof -
  note main = example_Type_simps(1) [of "''main''" "''User''"]
  from LookupFromStructForReflectType_main [OF main, of "example_world\<lparr>ReadBuildInfo := None\<rparr>" example_Lookup]
    example_build(2)
  have "LookupFromStructForReflectType (example_world\<lparr>ReadBuildInfo := None\<rparr>) example_Lookup
       (example_Type ''main'' ''User'') =
     (Inl ErrNotFound, [Call_ReadBuildInfo, Log ''debug.ReadBuildInfo() is failed''])"
    by blast
  moreover
  from LookupFromStructForReflectType_main [OF main, of example_world example_Lookup] example_build(1)
  have "LookupFromStructForReflectType example_world example_Lookup (example_Type ''main'' ''User'') =
       after [Call_ReadBuildInfo]
         (load_pkgs example_world example_Lookup (example_Type ''main'' ''User'')
            (Path \<lparr>Path = ''example.com/m''\<rparr>))"
    by blast
  ultimately show ?thesis by simp
qed

subsection \<open>Candidate packages\<close>

text \<open>
  \<^bold>\<open>C3\<close> (as the code has it).  A struct lookup returns a struct record only from a
  package that the loader returned without load errors, whose path equals the resolved
  path of the type's package, and whose index has a type of exactly the type's name: the
  result is that type's record.  Packages with load errors or with another path are
  skipped: the result is the result of the scan over the other packages alone, and the
  indexer is called on no skipped package.  When the loader succeeds and every package
  that is not skipped is indexed without error and has no type of that name, the lookup
  fails with an error that wraps \<open>ErrNotFound\<close>.  When the indexer fails on a package
  that is not skipped, and the packages before it did not have the type, the lookup
  fails with the indexer's error wrapped in \<open>collect: ...\<close>; when the loader itself
  fails, the lookup fails with the loader's error wrapped in \<open>packages.Load() ...\<close>.
  Neither of these two wraps \<open>ErrNotFound\<close>.
\<close>

theorem LookupFromStructForReflectType_candidates:
  "(\<forall>s. fst (LookupFromStructForReflectType w l rt) = Inr s \<longrightarrow>
      (\<exists>pkgpath pkgs pkg p.
         fst (resolve_pkgpath w rt) = Inr pkgpath
         \<and> Load w (Lookup.IncludeGoTestFiles l) pkgpath = Inr pkgs
         \<and> pkg \<in> set pkgs \<and> Errors pkg = [] \<and> packages_Package.PkgPath pkg = pkgpath
         \<and> commentof_Package w (IncludeUnexported l) (packages_Package.Name pkg) (tree_Files w pkg) = Inr p
         \<and> Types p (reflect_Type.Name rt) = Some (Struct.Raw s)))
   \<and> (\<forall>pkgpath pkgs.
        fst (resolve_pkgpath w rt) = Inr pkgpath
        \<and> Load w (Lookup.IncludeGoTestFiles l) pkgpath = Inr pkgs \<longrightarrow>
          fst (LookupFromStructForReflectType w l rt) =
            fst (scan_pkgs w l rt pkgpath
                  (filter (\<lambda>pkg. Errors pkg = [] \<and> packages_Package.PkgPath pkg = pkgpath) pkgs))
          \<and> (\<forall>name files b.
                Call_commentof_Package name files b \<in> set (snd (LookupFromStructForReflectType w l rt)) \<longrightarrow>
                  (\<exists>pkg \<in> set pkgs. Errors pkg = [] \<and> packages_Package.PkgPath pkg = pkgpath
                     \<and> name = packages_Package.Name pkg \<and> files = tree_Files w pkg))
          \<and> ((\<forall>pkg \<in> set pkgs. Errors pkg = [] \<and> packages_Package.PkgPath pkg = pkgpath \<longrightarrow>
                 (\<exists>p. commentof_Package w (IncludeUnexported l) (packages_Package.Name pkg) (tree_Files w pkg) = Inr p
                    \<and> Types p (reflect_Type.Name rt) = None)) \<longrightarrow>
               fst (LookupFromStructForReflectType w l rt) =
                 Inl (Wrapf (''lookup metadata of '' @ String rt @ '' is failed '') ErrNotFound)
               \<and> Is_ErrNotFound (Wrapf (''lookup metadata of '' @ String rt @ '' is failed '') ErrNotFound))
          \<and> (\<forall>pre pkg post err.
                pkgs = pre @ pkg # post
                \<and> (\<forall>q \<in> set pre. Errors q = [] \<and> packages_Package.PkgPath q = pkgpath \<longrightarrow>
                     (\<exists>p. commentof_Package w (IncludeUnexported l) (packages_Package.Name q) (tree_Files w q) = Inr p
                        \<and> Types p (reflect_Type.Name rt) = None))
                \<and> Errors pkg = [] \<and> packages_Package.PkgPath pkg = pkgpath
                \<and> commentof_Package w (IncludeUnexported l) (packages_Package.Name pkg) (tree_Files w pkg) = Inl err \<longrightarrow>
                  fst (LookupFromStructForReflectType w l rt) =
                    Inl (Wrapf (''collect: dir='' @ pkgpath @ '', name='' @ reflect_Type.Name rt @ '', '')
                           (External err))
                  \<and> \<not> Is_ErrNotFound (Wrapf (''collect: dir='' @ pkgpath @ '', name='' @ reflect_Type.Name rt @ '', '')
                           (External err))))
   \<and> (\<forall>pkgpath err.
        fst (resolve_pkgpath w rt) = Inr pkgpath
        \<and> Load w (Lookup.IncludeGoTestFiles l) pkgpath = Inl err \<longrightarrow>
          fst (LookupFromStructForReflectType w l rt) = Inl (Wrapf ''packages.Load() '' (External err))
          \<and> \<not> Is_ErrNotFound (Wrapf ''packages.Load() '' (External err)))"
proof (intro conjI allI impI; (elim conjE)?)
  fix s
  assume ok: "fst (LookupFromStructForReflectType w l rt) = Inr s"
  then obtain pkgpath where r: "fst (resolve_pkgpath w rt) = Inr pkgpath"
    by (cases "fst (resolve_pkgpath w rt)") (auto simp: Lookup_unresolved)
  with ok have ld: "fst (load_pkgs w l rt pkgpath) = Inr s"
    by (simp add: Lookup_resolved)
  then obtain pkgs where pkgs: "Load w (Lookup.IncludeGoTestFiles l) pkgpath = Inr pkgs"
    by (cases "Load w (Lookup.IncludeGoTestFiles l) pkgpath") (auto simp: load_pkgs_def)
  with ld have "fst (scan_pkgs w l rt pkgpath pkgs) = Inr s"
    by (simp add: load_pkgs_def)
  from scan_pkgs_found [OF this] r pkgs
  show "\<exists>pkgpath pkgs pkg p.
         fst (resolve_pkgpath w rt) = Inr pkgpath
         \<and> Load w (Lookup.IncludeGoTestFiles l) pkgpath = Inr pkgs
         \<and> pkg \<in> set pkgs \<and> Errors pkg = [] \<and> packages_Package.PkgPath pkg = pkgpath
         \<and> commentof_Package w (IncludeUnexported l) (packages_Package.Name pkg) (tree_Files w pkg) = Inr p
         \<and> Types p (reflect_Type.Name rt) = Some (Struct.Raw s)"
    by blast
next
  fix pkgpath pkgs
  assume "fst (resolve_pkgpath w rt) = Inr pkgpath"
    and "Load w (Lookup.IncludeGoTestFiles l) pkgpath = Inr pkgs"
  then show "fst (LookupFromStructForReflectType w l rt) =
            fst (scan_pkgs w l rt pkgpath
                  (filter (\<lambda>pkg. Errors pkg = [] \<and> packages_Package.PkgPath pkg = pkgpath) pkgs))"
    using scan_pkgs_filter [of w l rt pkgpath pkgs] by (simp add: Lookup_resolved load_pkgs_def)
next
  fix pkgpath pkgs name files b
  assume "fst (resolve_pkgpath w rt) = Inr pkgpath"
    and "Load w (Lookup.IncludeGoTestFiles l) pkgpath = Inr pkgs"
    and "Call_commentof_Package name files b \<in> set (snd (LookupFromStructForReflectType w l rt))"
  then have "Call_commentof_Package name files b \<in> set (snd (scan_pkgs w l rt pkgpath pkgs))"
    using resolve_pkgpath_no_index [of name files b w rt]
    by (auto simp: Lookup_resolved load_pkgs_def)
  from scan_pkgs_calls [OF this]
  show "\<exists>pkg \<in> set pkgs. Errors pkg = [] \<and> packages_Package.PkgPath pkg = pkgpath
                     \<and> name = packages_Package.Name pkg \<and> files = tree_Files w pkg"
    by blast
next
  fix pkgpath pkgs
  assume "fst (resolve_pkgpath w rt) = Inr pkgpath"
    and "Load w (Lookup.IncludeGoTestFiles l) pkgpath = Inr pkgs"
    and "\<forall>pkg \<in> set pkgs. Errors pkg = [] \<and> packages_Package.PkgPath pkg = pkgpath \<longrightarrow>
                 (\<exists>p. commentof_Package w (IncludeUnexported l) (packages_Package.Name pkg) (tree_Files w pkg) = Inr p
                    \<and> Types p (reflect_Type.Name rt) = None)"
  then show "fst (LookupFromStructForReflectType w l rt) =
                 Inl (Wrapf (''lookup metadata of '' @ String rt @ '' is failed '') ErrNotFound)"
    using scan_pkgs_not_found [of pkgs pkgpath w l rt] by (simp add: Lookup_resolved load_pkgs_def)
next
  fix pkgpath pkgs pre pkg post err
  assume "fst (resolve_pkgpath w rt) = Inr pkgpath"
    and "Load w (Lookup.IncludeGoTestFiles l) pkgpath = Inr pkgs"
    and "pkgs = pre @ pkg # post"
    and "\<forall>q \<in> set pre. Errors q = [] \<and> packages_Package.PkgPath q = pkgpath \<longrightarrow>
                     (\<exists>p. commentof_Package w (IncludeUnexported l) (packages_Package.Name q) (tree_Files w q) = Inr p
                        \<and> Types p (reflect_Type.Name rt) = None)"
    and "Errors pkg = []" and "packages_Package.PkgPath pkg = pkgpath"
    and "commentof_Package w (IncludeUnexported l) (packages_Package.Name pkg) (tree_Files w pkg) = Inl err"
  then show "fst (LookupFromStructForReflectType w l rt) =
                    Inl (Wrapf (''collect: dir='' @ pkgpath @ '', name='' @ reflect_Type.Name rt @ '', '')
                           (External err))"
    using scan_pkgs_append [of pre pkgpath w l rt "pkg # post"]
    by (simp add: Lookup_resolved load_pkgs_def Let_def)
next
  fix pkgpath err
  assume "fst (resolve_pkgpath w rt) = Inr pkgpath"
    and "Load w (Lookup.IncludeGoTestFiles l) pkgpath = Inl err"
  then show "fst (LookupFromStructForReflectType w l rt) = Inl (Wrapf ''packages.Load() '' (External err))"
    by (simp add: Lookup_resolved load_pkgs_def)
qed simp_all

theorem LookupFromStructForReflectType_candidates_witness:
  "fst (LookupFromStructForReflectType example_world example_Lookup (example_Type ''main'' ''User'')) =
     Inr example_User
   \<and> fst (LookupFromStructForReflectType example_world example_Lookup (example_Type ''main'' ''Missing'')) =
     Inl (Wrapf ''lookup metadata of main.Missing is failed '' ErrNotFound)
   \<and> fst (LookupFromStructForReflectType example_world example_Lookup
            (example_Type ''example.com/m/calc'' ''Stack'')) =
     Inl (Wrapf ''packages.Load() '' (External ''go: executable file not found''))"
proof -
  note user = LookupFromStructForReflectType_candidates
    [of example_world example_Lookup "example_Type ''main'' ''User''",
      THEN conjunct2, THEN conjunct1, THEN spec, THEN spec, THEN mp,
      OF conjI, OF example_resolve(1) example_Load(1), THEN conjunct1]
  note missing = LookupFromStructForReflectType_candidates
    [of example_world example_Lookup "example_Type ''main'' ''Missing''",
      THEN conjunct2, THEN conjunct1, THEN spec, THEN spec, THEN mp,
      OF conjI, OF example_resolve(1) example_Load(1), THEN conjunct1]
  note stack = LookupFromStructForReflectType_candidates
    [of example_world example_Lookup "example_Type ''example.com/m/calc'' ''Stack''",
      THEN conjunct2, THEN conjunct2, THEN spec, THEN spec, THEN mp,
      OF conjI, OF example_resolve(2) example_Load(2), THEN conjunct1]
  have "fst (LookupFromStructForReflectType example_world example_Lookup (example_Type ''main'' ''User'')) =
     Inr example_User"
    unfolding user example_eligible
    by (simp add: example_indexed example_Type_simps)
  moreover
  have "fst (LookupFromStructForReflectType example_world example_Lookup (example_Type ''main'' ''Missing'')) =
     Inl (Wrapf ''lookup metadata of main.Missing is failed '' ErrNotFound)"
    unfolding missing example_eligible
    by (simp add: example_indexed example_Type_simps)
  ultimately show ?thesis
    using stack by simp
qed

text \<open>
  Without the condition on the loader and the indexer the last part does not hold.  No
  candidate has the type \<open>Stack\<close> when the loader fails for \<open>example.com/m/calc\<close>, and
  none has \<open>T\<close> when the indexer rejects the only package of \<open>example.com/m/gen\<close>; in
  both cases the lookup fails with an error that does not wrap \<open>ErrNotFound\<close>.
\<close>

theorem LookupFromStructForReflectType_counterexample:
  "Load example_world (Lookup.IncludeGoTestFiles example_Lookup) ''example.com/m/calc'' =
     Inl ''go: executable file not found''
   \<and> fst (LookupFromStructForReflectType example_world example_Lookup
            (example_Type ''example.com/m/calc'' ''Stack'')) =
       Inl (Wrapf ''packages.Load() '' (External ''go: executable file not found''))
   \<and> \<not> Is_ErrNotFound (Wrapf ''packages.Load() '' (External ''go: executable file not found''))
   \<and> Load example_world (Lookup.IncludeGoTestFiles example_Lookup) ''example.com/m/gen'' =
       Inr [\<lparr>ID = ''example.com/m/gen'', Name = ''gen'', PkgPath = ''example.com/m/gen'',
             Errors = [], Syntax = [6]\<rparr>]
   \<and> commentof_Package example_world (IncludeUnexported example_Lookup) ''gen''
         [(''/src/m/gen/gen.go'', 6)] = Inl ''unsupported''
   \<and> fst (LookupFromStructForReflectType example_world example_Lookup
            (example_Type ''example.com/m/gen'' ''T'')) =
       Inl (Wrapf ''collect: dir=example.com/m/gen, name=T, '' (External ''unsupported''))
   \<and> \<not> Is_ErrNotFound (Wrapf ''collect: dir=example.com/m/gen, name=T, '' (External ''unsupported''))"
  by (simp add: example_Load example_indexed Lookup_resolved [OF example_resolve(2)]
        Lookup_resolved [OF example_resolve(3)] load_pkgs_def example_Type_simps Let_def)

section \<open>The lookup that \<open>Extract\<close> builds\<close>

text \<open>
  \<^bold>\<open>C9.\<close>  When \<open>Config.Extract\<close> builds the lookup (the configuration has none yet and
  \<open>SkipComments\<close> is false), the lookup it stores includes unexported identifiers, for
  every value of every field of the configuration, and takes its test-files flag from
  the configuration; a new extractor is given this lookup.  Otherwise the lookup of the
  configuration stays as it is.  \<open>NewLookup\<close> by itself does not include unexported
  identifiers.
\<close>

theorem Config_Extract_IncludeUnexported:
  "(lookup c = None \<and> \<not> SkipComments c \<longrightarrow>
      (\<exists>l. lookup (snd (Config_Extract run newFileSet defaultSize c ob)) = Some l
         \<and> IncludeUnexported l
         \<and> Lookup.IncludeGoTestFiles l = Config.IncludeGoTestFiles c
         \<and> (extractor c = None \<longrightarrow>
              extractor (snd (Config_Extract run newFileSet defaultSize c ob)) = Some \<lparr>Lookup = Some l\<rparr>)))
   \<and> (\<not> (lookup c = None \<and> \<not> SkipComments c) \<longrightarrow>
        lookup (snd (Config_Extract run newFileSet defaultSize c ob)) = lookup c)
   \<and> \<not> IncludeUnexported (NewLookup newFileSet)"
  by (simp add: Config_Extract_def Extract_lookup_def Extract_size_def NewLookup_def Let_def)

theorem Config_Extract_IncludeUnexported_witness:
  "lookup (snd (Config_Extract (\<lambda>e ob. ()) () 10 example_Config ())) =
     Some \<lparr>Fset = (), IncludeGoTestFiles = True, IncludeUnexported = True\<rparr>"
proof -
  have "lookup example_Config = None \<and> \<not> SkipComments example_Config"
    by (simp add: example_Config_def)
  with Config_Extract_IncludeUnexported [of example_Config "\<lambda>e ob. ()" "()" 10 "()"]
  obtain l where "lookup (snd (Config_Extract (\<lambda>e ob. ()) () 10 example_Config ())) = Some l"
    and "IncludeUnexported l"
    and "Lookup.IncludeGoTestFiles l = Config.IncludeGoTestFiles example_Config"
    by blast
  then show ?thesis
    by (cases l) (simp add: example_Config_def)
qed

end
